theory Spec2Isabelle
  imports Main "HOL-Library.Word" "HOL-Library.Multiset"
begin

unbundle bit_operations_syntax

section \<open>Common data model\<close>

text \<open>
  Error codes returned by the functions of \<^verbatim>\<open>extract.c\<close> and \<^verbatim>\<open>write.c\<close>.
  The C functions return \<^verbatim>\<open>int\<close>, zero for success; here a return value is
  \<open>wimlib_error option\<close> with \<open>None\<close> for zero.  \<open>WIMLIB_ERR_OTHER\<close> stands for
  any further code that a helper outside the two files may hand back.
\<close>

datatype wimlib_error =
    WIMLIB_ERR_INVALID_IMAGE
  | WIMLIB_ERR_INVALID_PARAM
  | WIMLIB_ERR_MKDIR
  | WIMLIB_ERR_NOMEM
  | WIMLIB_ERR_NOTDIR
  | WIMLIB_ERR_NOT_A_REGULAR_FILE
  | WIMLIB_ERR_NO_FILENAME
  | WIMLIB_ERR_NTFS_3G
  | WIMLIB_ERR_OPEN
  | WIMLIB_ERR_PATH_DOES_NOT_EXIST
  | WIMLIB_ERR_RENAME
  | WIMLIB_ERR_STAT
  | WIMLIB_ERR_UNSUPPORTED
  | WIMLIB_ERR_WRITE
  | WIMLIB_ERR_OTHER int

type_synonym ret = "wimlib_error option"

type_synonym u32 = "32 word"
type_synonym u64 = "64 word"

text \<open>
  A dentry of the image tree.  \<open>d_id\<close> is the identity of the C object (its address):
  the source compares dentries by pointer.  \<open>d_inode\<close> names the inode the dentry
  points to; hard links are dentries with the same \<open>d_inode\<close>.  \<open>full_path\<close> is the
  cached \<^verbatim>\<open>_full_path\<close> (with its leading slash) and \<open>full_path_nbytes\<close> its
  length in bytes.
\<close>

datatype wim_dentry =
  Dentry (d_id: nat) (d_inode: nat) (full_path: string) (full_path_nbytes: nat)
         (d_children: "wim_dentry list")

text \<open>The progress record handed to the progress callback (only the extract part).\<close>

record progress_extract =
  p_image :: int
  p_extract_flags :: u32
  p_wimfile_name :: "string option"
  p_image_name :: "string option"
  p_extract_root_wim_source_path :: string
  p_target :: string
  p_cur_path :: string
  p_num_streams :: u64
  p_total_bytes :: u64
  p_completed_bytes :: u64

text \<open>
  \<^verbatim>\<open>struct apply_args\<close>, as far as the two files use it.  \<open>extract_root\<close> holds the
  identity of the root dentry, \<open>vol\<close> whether an NTFS volume is mounted.
\<close>

record apply_args =
  target :: string
  target_nchars :: nat
  wim_source_path_nchars :: nat
  extract_root :: nat
  extract_flags :: u32
  has_progress_func :: bool
  progress :: progress_extract
  target_realpath :: "string option"
  target_realpath_len :: nat

section \<open>Output path composition: \<^verbatim>\<open>do_apply_op\<close>\<close>

text \<open>
  \<^verbatim>\<open>do_apply_op\<close> (extract.c, lines 52-80).  \<open>sz\<close> is \<^verbatim>\<open>sizeof(tchar)\<close>, whose
  declaration is outside the two files.  The arithmetic is on \<^verbatim>\<open>size_t\<close>; the two
  subtractions would wrap below zero, after which the copy leaves the buffer, so the
  model returns \<open>None\<close> (undefined behaviour) in exactly those cases and otherwise the
  value of the backend function on the composed path and its length.
\<close>

definition do_apply_op ::
  "nat \<Rightarrow> wim_dentry \<Rightarrow> apply_args \<Rightarrow>
   (string \<Rightarrow> nat \<Rightarrow> wim_dentry \<Rightarrow> apply_args \<Rightarrow> 'r) \<Rightarrow> 'r option" where
  "do_apply_op sz dentry args apply_dentry_func =
     (if full_path dentry = [] \<or> full_path_nbytes dentry div sz = 0 then None
      else
        let fp = tl (full_path dentry);
            fp_nchars = full_path_nbytes dentry div sz - 1
        in if fp_nchars < wim_source_path_nchars args then None
           else
             let p0 = take (target_nchars args) (target args);
                 p1 = (if d_id dentry \<noteq> extract_root args
                       then p0 @ [CHR ''/''] @
                            take (fp_nchars - wim_source_path_nchars args)
                                 (drop (wim_source_path_nchars args) fp)
                       else p0)
             in Some (apply_dentry_func p1 (length p1) dentry args))"

section \<open>Lookup table entries, inodes and the extraction state\<close>

record resource_entry =
  re_offset :: u64
  re_size :: u64
  re_original_size :: u64
  re_flags :: "8 word"

text \<open>
  A lookup table entry (stream descriptor), with the fields the two files touch.  The
  stream list of an extraction (linked through \<^verbatim>\<open>extraction_list\<close>) is a list of
  entry addresses; \<open>lte_dentry_list\<close> is the per-extraction list of dentries linked
  through their \<^verbatim>\<open>tmp_list\<close>.  The declaration of \<^verbatim>\<open>out_refcnt\<close> is outside
  the two files; it is a counter that the planner only increments and it is kept
  here as a natural number.
\<close>

record wim_lookup_table_entry =
  lte_resource_entry :: resource_entry
  output_resource_entry :: resource_entry
  out_refcnt :: nat
  extracted_file :: "string option"
  lte_dentry_list :: "wim_dentry list"

record ads_entry =
  stream_name_nbytes :: nat
  ads_hash :: nat
  ads_lte :: "nat option"

text \<open>
  An inode.  A stream is named by its SHA-1 hash (kept as a number, zero for the
  all-zero hash) until \<^verbatim>\<open>inode_resolve_ltes\<close> replaces the hash by the address of
  the lookup table entry.  \<open>i_is_directory\<close> and \<open>i_is_regular_file\<close> are the
  values of \<^verbatim>\<open>dentry_is_directory\<close> and \<^verbatim>\<open>dentry_is_regular_file\<close>, which
  read the inode's attributes and are declared outside the two files.
\<close>

record wim_inode =
  i_resolved :: bool
  i_hash :: nat
  i_lte :: "nat option"
  i_ads_entries :: "ads_entry list"
  i_visited :: bool
  i_is_directory :: bool
  i_is_regular_file :: bool

datatype progress_msg =
    EXTRACT_IMAGE_BEGIN | EXTRACT_TREE_BEGIN
  | EXTRACT_DIR_STRUCTURE_BEGIN | EXTRACT_DIR_STRUCTURE_END
  | EXTRACT_DENTRY | EXTRACT_STREAMS | APPLY_TIMESTAMPS
  | EXTRACT_IMAGE_END | EXTRACT_TREE_END

text \<open>What the library makes visible besides its return value and the backend's work.\<close>

datatype event =
    Progress progress_msg progress_extract
  | Warning string
  | Error string

text \<open>
  The memory and the outside world during an extraction: the fields of the
  \<^verbatim>\<open>WIMStruct\<close> that extract.c reads, the lookup table (from hash to entry
  address), lookup table entries and inodes by address, the \<^verbatim>\<open>needs_extraction\<close> flag of every dentry by identity, the
  \<^verbatim>\<open>apply_args\<close> of the running \<^verbatim>\<open>extract_tree\<close>, the log of callbacks and
  messages, and the world \<open>'w\<close> the backends act on (file system, NTFS volume,
  standard output).
\<close>

record wim_struct =
  wim_filename :: "string option"
  wim_current_image :: int
  wim_hdr_flags :: u32
  wim_hdr_image_count :: int

record 'w xstate =
  wim :: wim_struct
  lookup_table :: "nat \<Rightarrow> nat option"
  ltes :: "nat \<Rightarrow> wim_lookup_table_entry"
  inodes :: "nat \<Rightarrow> wim_inode"
  needs_extraction :: "nat \<Rightarrow> bool"
  args :: apply_args
  events :: "event list"
  world :: 'w

text \<open>The build configuration: the preprocessor symbols the two files test.\<close>

record build =
  WITH_NTFS_3G :: bool
  WIN32 :: bool

section \<open>Extract flags\<close>

text \<open>
  Modelled from the spec: the \<^verbatim>\<open>WIMLIB_EXTRACT_FLAG_*\<close> macros and
  \<^verbatim>\<open>WIMLIB_EXTRACT_MASK_PUBLIC\<close> are defined in the library's headers, which are
  not among the two files.  The spec (section 6) lists the flags and marks \<open>NO_STREAMS\<close>
  and \<open>MULTI_IMAGE\<close> as engine-internal.  Each flag is one bit of an \<^verbatim>\<open>int\<close>; the
  public mask holds every public flag and neither of the two internal ones.
\<close>

definition WIMLIB_EXTRACT_FLAG_NTFS :: u32 where "WIMLIB_EXTRACT_FLAG_NTFS = 0x00000001"
definition WIMLIB_EXTRACT_FLAG_HARDLINK :: u32 where "WIMLIB_EXTRACT_FLAG_HARDLINK = 0x00000002"
definition WIMLIB_EXTRACT_FLAG_SYMLINK :: u32 where "WIMLIB_EXTRACT_FLAG_SYMLINK = 0x00000004"
definition WIMLIB_EXTRACT_FLAG_VERBOSE :: u32 where "WIMLIB_EXTRACT_FLAG_VERBOSE = 0x00000008"
definition WIMLIB_EXTRACT_FLAG_SEQUENTIAL :: u32 where "WIMLIB_EXTRACT_FLAG_SEQUENTIAL = 0x00000010"
definition WIMLIB_EXTRACT_FLAG_UNIX_DATA :: u32 where "WIMLIB_EXTRACT_FLAG_UNIX_DATA = 0x00000020"
definition WIMLIB_EXTRACT_FLAG_RPFIX :: u32 where "WIMLIB_EXTRACT_FLAG_RPFIX = 0x00000100"
definition WIMLIB_EXTRACT_FLAG_NORPFIX :: u32 where "WIMLIB_EXTRACT_FLAG_NORPFIX = 0x00000200"
definition WIMLIB_EXTRACT_FLAG_TO_STDOUT :: u32 where "WIMLIB_EXTRACT_FLAG_TO_STDOUT = 0x00000400"
definition WIMLIB_EXTRACT_FLAG_NO_STREAMS :: u32 where "WIMLIB_EXTRACT_FLAG_NO_STREAMS = 0x40000000"
definition WIMLIB_EXTRACT_FLAG_MULTI_IMAGE :: u32 where "WIMLIB_EXTRACT_FLAG_MULTI_IMAGE = 0x80000000"
definition WIMLIB_EXTRACT_MASK_PUBLIC :: u32 where "WIMLIB_EXTRACT_MASK_PUBLIC = 0x3fffffff"

text \<open>The C test \<^verbatim>\<open>flags & FLAG\<close> used as a condition.\<close>

definition flag_set :: "u32 \<Rightarrow> u32 \<Rightarrow> bool" where
  "flag_set flags f = (flags AND f \<noteq> 0)"

section \<open>Tree traversal and stream resolution\<close>

text \<open>
  Modelled from the spec: \<^verbatim>\<open>for_dentry_in_tree\<close> and \<^verbatim>\<open>for_dentry_in_tree_depth\<close>
  are defined in dentry.c, which is not among the two files.  The spec (section 4.3):
  pre-order traversal with a visitor that receives the dentry and a context and
  returns success or an abort code, the first non-zero code ending the traversal;
  post-order traversal with the same contract.
\<close>

fun dentries_preorder :: "wim_dentry \<Rightarrow> wim_dentry list" where
  "dentries_preorder (Dentry i n p b cs) =
     Dentry i n p b cs # concat (map dentries_preorder cs)"

fun dentries_postorder :: "wim_dentry \<Rightarrow> wim_dentry list" where
  "dentries_postorder (Dentry i n p b cs) =
     concat (map dentries_postorder cs) @ [Dentry i n p b cs]"

fun for_dentry_list ::
  "(wim_dentry \<Rightarrow> 's \<Rightarrow> ret \<times> 's) \<Rightarrow> wim_dentry list \<Rightarrow> 's \<Rightarrow> ret \<times> 's" where
  "for_dentry_list visitor [] s = (None, s)"
| "for_dentry_list visitor (d # ds) s =
     (case visitor d s of
        (None, s') \<Rightarrow> for_dentry_list visitor ds s'
      | (Some e, s') \<Rightarrow> (Some e, s'))"

definition for_dentry_in_tree ::
  "wim_dentry \<Rightarrow> (wim_dentry \<Rightarrow> 's \<Rightarrow> ret \<times> 's) \<Rightarrow> 's \<Rightarrow> ret \<times> 's" where
  "for_dentry_in_tree root visitor s = for_dentry_list visitor (dentries_preorder root) s"

definition for_dentry_in_tree_depth ::
  "wim_dentry \<Rightarrow> (wim_dentry \<Rightarrow> 's \<Rightarrow> ret \<times> 's) \<Rightarrow> 's \<Rightarrow> ret \<times> 's" where
  "for_dentry_in_tree_depth root visitor s =
     for_dentry_list visitor (dentries_postorder root) s"

text \<open>
  Modelled from the spec: \<^verbatim>\<open>inode_resolve_ltes\<close>, \<^verbatim>\<open>inode_stream_lte_resolved\<close>
  and \<^verbatim>\<open>inode_unnamed_lte_resolved\<close> are declared in the lookup table's header,
  which is not among the two files.  The spec (section 3): an inode has an unnamed
  stream hash and zero or more alternate data streams (name, hash), and the hashes
  are resolved to stream descriptors at the start of each extraction.  Stream 0 is
  the inode's own stream and has no name, stream \<open>i + 1\<close> is ADS entry \<open>i\<close>; the
  unnamed stream is the first stream with an empty name and a non-zero hash.
\<close>

definition inode_resolve_ltes :: "wim_inode \<Rightarrow> (nat \<Rightarrow> nat option) \<Rightarrow> wim_inode" where
  "inode_resolve_ltes inode table =
     (if i_resolved inode then inode
      else inode\<lparr>i_lte := table (i_hash inode),
                 i_ads_entries := map (\<lambda>a. a\<lparr>ads_lte := table (ads_hash a)\<rparr>)
                                      (i_ads_entries inode),
                 i_resolved := True\<rparr>)"

definition inode_stream_lte_resolved :: "wim_inode \<Rightarrow> nat \<Rightarrow> nat option" where
  "inode_stream_lte_resolved inode i =
     (if i = 0 then i_lte inode
      else if i \<le> length (i_ads_entries inode) then ads_lte (i_ads_entries inode ! (i - 1))
      else None)"

definition inode_stream_name_nbytes :: "wim_inode \<Rightarrow> nat \<Rightarrow> nat" where
  "inode_stream_name_nbytes inode i =
     (if i = 0 \<or> length (i_ads_entries inode) < i then 0
      else stream_name_nbytes (i_ads_entries inode ! (i - 1)))"

definition inode_stream_hash :: "wim_inode \<Rightarrow> nat \<Rightarrow> nat" where
  "inode_stream_hash inode i =
     (if i = 0 \<or> length (i_ads_entries inode) < i then i_hash inode
      else ads_hash (i_ads_entries inode ! (i - 1)))"

definition inode_unnamed_lte_resolved :: "wim_inode \<Rightarrow> nat option" where
  "inode_unnamed_lte_resolved inode =
     (case filter (\<lambda>i. inode_stream_name_nbytes inode i = 0 \<and> inode_stream_hash inode i \<noteq> 0)
                  [0 ..< Suc (length (i_ads_entries inode))] of
        [] \<Rightarrow> None
      | i # _ \<Rightarrow> inode_stream_lte_resolved inode i)"

section \<open>The extraction planner\<close>

text \<open>\<^verbatim>\<open>maybe_add_stream_for_extraction\<close> (extract.c, lines 167-175).\<close>

definition maybe_add_stream_for_extraction ::
  "nat \<Rightarrow> nat list \<times> 'w xstate \<Rightarrow> nat list \<times> 'w xstate" where
  "maybe_add_stream_for_extraction lte = (\<lambda>(stream_list, s).
     let e = (ltes s lte)\<lparr>out_refcnt := Suc (out_refcnt (ltes s lte))\<rparr>
     in if out_refcnt e = 1
        then (stream_list @ [lte], s\<lparr>ltes := (ltes s)(lte := e\<lparr>lte_dentry_list := []\<rparr>)\<rparr>)
        else (stream_list, s\<lparr>ltes := (ltes s)(lte := e)\<rparr>))"

text \<open>\<^verbatim>\<open>list_add_tail(&dentry->tmp_list, &lte->lte_dentry_list)\<close>.\<close>

definition add_dentry_to_lte :: "wim_dentry \<Rightarrow> nat \<Rightarrow> 'w xstate \<Rightarrow> 'w xstate" where
  "add_dentry_to_lte dentry lte s =
     s\<lparr>ltes := (ltes s)(lte := (ltes s lte)\<lparr>lte_dentry_list :=
           lte_dentry_list (ltes s lte) @ [dentry]\<rparr>)\<rparr>"

text \<open>
  The condition under which alternate data streams are included (extract.c, lines
  208-214): the NTFS flag when built with NTFS-3g, always on Windows, never otherwise.
\<close>

definition include_ads :: "build \<Rightarrow> u32 \<Rightarrow> bool" where
  "include_ads b xflags =
     (if WITH_NTFS_3G b then flag_set xflags WIMLIB_EXTRACT_FLAG_NTFS
      else if WIN32 b then True
      else False)"

text \<open>
  The body of the loop over the ADS entries (extract.c, lines 216-231), for one entry;
  the state carries the local \<^verbatim>\<open>dentry_added\<close>.
\<close>

definition ads_step ::
  "wim_dentry \<Rightarrow> bool \<Rightarrow> ads_entry \<Rightarrow> bool \<times> nat list \<times> 'w xstate \<Rightarrow> bool \<times> nat list \<times> 'w xstate" where
  "ads_step dentry visited a = (\<lambda>(dentry_added, stream_list, s).
     if stream_name_nbytes a \<noteq> 0 then
       (case ads_lte a of
          None \<Rightarrow> (dentry_added, stream_list, s)
        | Some lte \<Rightarrow>
            let (stream_list1, s1) =
                  (if \<not> visited then maybe_add_stream_for_extraction lte (stream_list, s)
                   else (stream_list, s))
            in if \<not> dentry_added then (True, stream_list1, add_dentry_to_lte dentry lte s1)
               else (dentry_added, stream_list1, s1))
     else (dentry_added, stream_list, s))"

text \<open>
  The block for the unnamed stream (extract.c, lines 194-200); it yields the initial
  value of \<^verbatim>\<open>dentry_added\<close>.
\<close>

definition unnamed_step ::
  "wim_dentry \<Rightarrow> bool \<Rightarrow> nat option \<Rightarrow> nat list \<times> 'w xstate \<Rightarrow> bool \<times> nat list \<times> 'w xstate" where
  "unnamed_step dentry visited l = (\<lambda>(stream_list, s).
     case l of
       None \<Rightarrow> (False, stream_list, s)
     | Some lte \<Rightarrow>
         let (stream_list1, s1) =
               (if \<not> visited then maybe_add_stream_for_extraction lte (stream_list, s)
                else (stream_list, s))
         in (True, stream_list1, add_dentry_to_lte dentry lte s1))"

text \<open>
  \<^verbatim>\<open>dentry_find_streams_to_extract\<close> (extract.c, lines 182-235).  The context
  \<^verbatim>\<open>find_streams_ctx\<close> is the stream list and the extract flags.
\<close>

definition dentry_find_streams_to_extract ::
  "build \<Rightarrow> u32 \<Rightarrow> wim_dentry \<Rightarrow> nat list \<times> 'w xstate \<Rightarrow> ret \<times> nat list \<times> 'w xstate" where
  "dentry_find_streams_to_extract b xflags dentry = (\<lambda>(stream_list, s).
     let s0 = s\<lparr>needs_extraction := (needs_extraction s)(d_id dentry := True)\<rparr>;
         inode = inodes s0 (d_inode dentry);
         visited = i_visited inode;
         st1 = unnamed_step dentry visited (inode_unnamed_lte_resolved inode) (stream_list, s0);
         st2 = (if include_ads b xflags
                then fold (ads_step dentry visited) (i_ads_entries inode) st1
                else st1)
     in case st2 of (dentry_added, stream_list2, s2) \<Rightarrow>
          (None, stream_list2,
           s2\<lparr>inodes := (inodes s2)(d_inode dentry :=
                 (inodes s2 (d_inode dentry))\<lparr>i_visited := True\<rparr>)\<rparr>))"

text \<open>\<^verbatim>\<open>dentry_resolve_and_zero_lte_refcnt\<close> (extract.c, lines 237-251).\<close>

definition zero_lte_refcnt :: "nat option \<Rightarrow> 'w xstate \<Rightarrow> 'w xstate" where
  "zero_lte_refcnt l s =
     (case l of
        None \<Rightarrow> s
      | Some lte \<Rightarrow> s\<lparr>ltes := (ltes s)(lte := (ltes s lte)\<lparr>out_refcnt := 0\<rparr>)\<rparr>)"

definition dentry_resolve_and_zero_lte_refcnt ::
  "wim_dentry \<Rightarrow> 'w xstate \<Rightarrow> ret \<times> 'w xstate" where
  "dentry_resolve_and_zero_lte_refcnt dentry s =
     (let inode = inode_resolve_ltes (inodes s (d_inode dentry)) (lookup_table s);
          s1 = s\<lparr>inodes := (inodes s)(d_inode dentry := inode)\<rparr>
      in (None, fold (\<lambda>i. zero_lte_refcnt (inode_stream_lte_resolved inode i))
                     [0 ..< Suc (length (i_ads_entries inode))] s1))"

text \<open>
  \<^verbatim>\<open>find_streams_for_extraction\<close> (extract.c, lines 253-266): two pre-order walks,
  the second one threading the stream list of the context.
\<close>

definition find_streams_for_extraction ::
  "build \<Rightarrow> wim_dentry \<Rightarrow> u32 \<Rightarrow> 'w xstate \<Rightarrow> nat list \<times> 'w xstate" where
  "find_streams_for_extraction b root xflags s =
     (let s1 = snd (for_dentry_in_tree root dentry_resolve_and_zero_lte_refcnt s);
          ctx = snd (for_dentry_in_tree root (dentry_find_streams_to_extract b xflags) ([], s1))
      in ctx)"

section \<open>The extraction executor\<close>

text \<open>
  The functions that extract.c calls and that are defined outside the two files are
  parameters of the model, collected in one record: the platform's
  \<^verbatim>\<open>unix_do_apply_dentry\<close> or \<^verbatim>\<open>win32_do_apply_dentry\<close> (and the timestamp
  variants), the NTFS backend, the C library (\<^verbatim>\<open>malloc\<close> for the array of the
  sort, \<^verbatim>\<open>calloc\<close> for the copy of the commands, \<^verbatim>\<open>qsort\<close>,
  \<^verbatim>\<open>realpath\<close>, \<^verbatim>\<open>stat\<close>, \<^verbatim>\<open>mkdir\<close>) and the other modules of the
  library.  A backend receives the whole state, \<^verbatim>\<open>apply_args\<close> included, and hands
  back its return value and the state it leaves.
\<close>

datatype stat_result = StatENOENT | StatError | StatDir | StatNotDir

record 'w xenv =
  sizeof_tchar :: nat
  sizeof_pointer :: nat
  malloc :: "nat \<Rightarrow> bool"
  calloc :: "nat \<Rightarrow> bool"
  qsort :: "(nat \<Rightarrow> nat \<Rightarrow> int) \<Rightarrow> nat list \<Rightarrow> nat list"
  realpath :: "string \<Rightarrow> 'w \<Rightarrow> string option"
  tstat :: "string \<Rightarrow> 'w \<Rightarrow> stat_result"
  tmkdir :: "string \<Rightarrow> 'w \<Rightarrow> bool \<times> 'w"
  do_apply_dentry ::
    "string \<Rightarrow> nat \<Rightarrow> wim_dentry \<Rightarrow> 'w xstate \<Rightarrow> ret \<times> 'w xstate"
  do_apply_dentry_timestamps ::
    "string \<Rightarrow> nat \<Rightarrow> wim_dentry \<Rightarrow> 'w xstate \<Rightarrow> ret \<times> 'w xstate"
  apply_dentry_ntfs :: "wim_dentry \<Rightarrow> 'w xstate \<Rightarrow> ret \<times> 'w xstate"
  apply_dentry_timestamps_ntfs :: "wim_dentry \<Rightarrow> 'w xstate \<Rightarrow> ret \<times> 'w xstate"
  ntfs_mount :: "string \<Rightarrow> 'w \<Rightarrow> bool \<times> 'w"
  ntfs_umount :: "'w \<Rightarrow> bool \<times> 'w"
  extract_wim_resource_to_fd ::
    "nat \<Rightarrow> nat \<Rightarrow> u64 \<Rightarrow> 'w xstate \<Rightarrow> ret \<times> 'w xstate"
  get_dentry :: "wim_struct \<Rightarrow> string \<Rightarrow> wim_dentry option"
  calculate_dentry_tree_full_paths :: "wim_dentry \<Rightarrow> wimlib_error + wim_dentry"
  wimlib_get_image_name :: "wim_struct \<Rightarrow> int \<Rightarrow> string option"
  select_wim_image :: "int \<Rightarrow> 'w xstate \<Rightarrow> ret \<times> 'w xstate"
  wim_checksum_unhashed_streams :: "'w xstate \<Rightarrow> ret \<times> 'w xstate"
  verify_swm_set :: "nat list \<Rightarrow> 'w xstate \<Rightarrow> ret"
  merge_lookup_tables :: "nat list \<Rightarrow> 'w xstate \<Rightarrow> 'w xstate"
  unmerge_lookup_table :: "'w xstate \<Rightarrow> 'w xstate"
  canonicalize_wim_path :: "string \<Rightarrow> string option"
  canonicalize_fs_path :: "string \<Rightarrow> string option"

text \<open>
  The value of the model for a run that has left defined C (a \<^verbatim>\<open>size_t\<close>
  subtraction below zero in \<^verbatim>\<open>do_apply_op\<close>); it is not a code of the library.
\<close>

definition UNDEFINED_BEHAVIOUR :: wimlib_error where
  "UNDEFINED_BEHAVIOUR = WIMLIB_ERR_OTHER (-1)"

text \<open>A call of the progress callback: the message and a snapshot of the progress record.\<close>

definition progress_call :: "progress_msg \<Rightarrow> 'w xstate \<Rightarrow> 'w xstate" where
  "progress_call msg s = s\<lparr>events := events s @ [Progress msg (progress (args s))]\<rparr>"

definition log_event :: "event \<Rightarrow> 'w xstate \<Rightarrow> 'w xstate" where
  "log_event e s = s\<lparr>events := events s @ [e]\<rparr>"

text \<open>
  \<^verbatim>\<open>apply_dentry_normal\<close> and \<^verbatim>\<open>apply_dentry_timestamps_normal\<close> (extract.c, lines
  84-104).
\<close>

definition apply_dentry_normal :: "'w xenv \<Rightarrow> wim_dentry \<Rightarrow> 'w xstate \<Rightarrow> ret \<times> 'w xstate" where
  "apply_dentry_normal env dentry s =
     (case do_apply_op (sizeof_tchar env) dentry (args s)
             (\<lambda>path n d a. do_apply_dentry env path n d) of
        None \<Rightarrow> (Some UNDEFINED_BEHAVIOUR, s)
      | Some k \<Rightarrow> k s)"

definition apply_dentry_timestamps_normal ::
  "'w xenv \<Rightarrow> wim_dentry \<Rightarrow> 'w xstate \<Rightarrow> ret \<times> 'w xstate" where
  "apply_dentry_timestamps_normal env dentry s =
     (case do_apply_op (sizeof_tchar env) dentry (args s)
             (\<lambda>path n d a. do_apply_dentry_timestamps env path n d) of
        None \<Rightarrow> (Some UNDEFINED_BEHAVIOUR, s)
      | Some k \<Rightarrow> k s)"

text \<open>\<^verbatim>\<open>struct apply_operations\<close> and its two instances (extract.c, lines 276-291).\<close>

record 'w apply_operations =
  apply_dentry :: "wim_dentry \<Rightarrow> 'w xstate \<Rightarrow> ret \<times> 'w xstate"
  apply_dentry_timestamps :: "wim_dentry \<Rightarrow> 'w xstate \<Rightarrow> ret \<times> 'w xstate"

definition normal_apply_operations :: "'w xenv \<Rightarrow> 'w apply_operations" where
  "normal_apply_operations env =
     \<lparr>apply_dentry = apply_dentry_normal env,
      apply_dentry_timestamps = apply_dentry_timestamps_normal env\<rparr>"

definition ntfs_apply_operations :: "'w xenv \<Rightarrow> 'w apply_operations" where
  "ntfs_apply_operations env =
     \<lparr>apply_dentry = apply_dentry_ntfs env,
      apply_dentry_timestamps = apply_dentry_timestamps_ntfs env\<rparr>"

text \<open>
  \<^verbatim>\<open>maybe_apply_dentry\<close> (extract.c, lines 109-133).  \<open>app\<close> is the function that
  \<^verbatim>\<open>args->apply_dentry\<close> points to.
\<close>

definition maybe_apply_dentry ::
  "(wim_dentry \<Rightarrow> 'w xstate \<Rightarrow> ret \<times> 'w xstate) \<Rightarrow> wim_dentry \<Rightarrow> 'w xstate \<Rightarrow> ret \<times> 'w xstate" where
  "maybe_apply_dentry app dentry s =
     (if \<not> needs_extraction s (d_id dentry) then (None, s)
      else if flag_set (extract_flags (args s)) WIMLIB_EXTRACT_FLAG_NO_STREAMS \<and>
              \<not> i_is_directory (inodes s (d_inode dentry)) \<and>
              inode_unnamed_lte_resolved (inodes s (d_inode dentry)) \<noteq> None
      then (None, s)
      else
        let s1 = (if flag_set (extract_flags (args s)) WIMLIB_EXTRACT_FLAG_VERBOSE \<and>
                     has_progress_func (args s)
                  then progress_call EXTRACT_DENTRY
                         (s\<lparr>args := (args s)\<lparr>progress :=
                              (progress (args s))\<lparr>p_cur_path := full_path dentry\<rparr>\<rparr>\<rparr>)
                  else s)
        in case app dentry s1 of
             (None, s2) \<Rightarrow>
               (None, s2\<lparr>needs_extraction := (needs_extraction s2)(d_id dentry := False)\<rparr>)
           | (Some e, s2) \<Rightarrow> (Some e, s2))"

text \<open>
  Modelled from the spec: \<^verbatim>\<open>wim_resource_size\<close> is declared in the lookup table's
  header, which is not among the two files; the spec (section 4.4, step 3) counts
  \<open>out_refcnt \<times> size\<close> with the size of the stream, its \<open>original_size\<close>
  (section 3).
\<close>

definition wim_resource_size :: "wim_lookup_table_entry \<Rightarrow> u64" where
  "wim_resource_size lte = re_original_size (lte_resource_entry lte)"

text \<open>\<^verbatim>\<open>calculate_bytes_to_extract\<close> (extract.c, lines 135-165).\<close>

definition bytes_step :: "u32 \<Rightarrow> wim_lookup_table_entry \<Rightarrow> u64 \<times> u64 \<Rightarrow> u64 \<times> u64" where
  "bytes_step xflags lte = (\<lambda>(total_bytes, num_streams).
     if flag_set xflags (WIMLIB_EXTRACT_FLAG_SYMLINK OR WIMLIB_EXTRACT_FLAG_HARDLINK)
     then (if extracted_file lte = None
           then (total_bytes + wim_resource_size lte, num_streams + 1)
           else (total_bytes, num_streams))
     else (total_bytes + of_nat (out_refcnt lte) * wim_resource_size lte,
           num_streams + of_nat (out_refcnt lte)))"

definition calculate_bytes_to_extract :: "nat list \<Rightarrow> u32 \<Rightarrow> 'w xstate \<Rightarrow> 'w xstate" where
  "calculate_bytes_to_extract stream_list xflags s =
     (let (total_bytes, num_streams) =
            fold (\<lambda>l. bytes_step xflags (ltes s l)) stream_list (0, 0)
      in s\<lparr>args := (args s)\<lparr>progress := (progress (args s))
              \<lparr>p_num_streams := num_streams, p_total_bytes := total_bytes,
               p_completed_bytes := 0\<rparr>\<rparr>\<rparr>)"

text \<open>
  \<^verbatim>\<open>apply_stream_list\<close> (extract.c, lines 293-342).  \<open>progress_check\<close> is the block
  after a successful \<^verbatim>\<open>maybe_apply_dentry\<close> (lines 323-338); the loop state carries
  the local \<^verbatim>\<open>next_progress\<close>, \<open>- 1\<close> being \<^verbatim>\<open>~0ULL\<close>.  The inner loop runs
  over the dentry list of the descriptor as it is when the outer loop reaches it.
\<close>

definition progress_check :: "bool \<Rightarrow> u64 \<Rightarrow> u64 \<times> 'w xstate \<Rightarrow> u64 \<times> 'w xstate" where
  "progress_check progress_func bytes_per_progress = (\<lambda>(next_progress, s).
     if progress_func \<and> next_progress \<le> p_completed_bytes (progress (args s))
     then
       let s1 = progress_call EXTRACT_STREAMS s
       in if p_total_bytes (progress (args s1)) \<le> p_completed_bytes (progress (args s1))
          then (- 1, s1)
          else (min (p_completed_bytes (progress (args s1)) + bytes_per_progress)
                    (p_total_bytes (progress (args s1))), s1)
     else (next_progress, s))"

fun apply_dentry_list ::
  "(wim_dentry \<Rightarrow> 'w xstate \<Rightarrow> ret \<times> 'w xstate) \<Rightarrow> bool \<Rightarrow> u64 \<Rightarrow> wim_dentry list \<Rightarrow>
   u64 \<times> 'w xstate \<Rightarrow> ret \<times> u64 \<times> 'w xstate" where
  "apply_dentry_list app pf bpp [] st = (None, st)"
| "apply_dentry_list app pf bpp (d # ds) st =
     (case maybe_apply_dentry app d (snd st) of
        (Some e, s1) \<Rightarrow> (Some e, fst st, s1)
      | (None, s1) \<Rightarrow> apply_dentry_list app pf bpp ds (progress_check pf bpp (fst st, s1)))"

fun apply_stream_loop ::
  "(wim_dentry \<Rightarrow> 'w xstate \<Rightarrow> ret \<times> 'w xstate) \<Rightarrow> bool \<Rightarrow> u64 \<Rightarrow> nat list \<Rightarrow>
   u64 \<times> 'w xstate \<Rightarrow> ret \<times> u64 \<times> 'w xstate" where
  "apply_stream_loop app pf bpp [] st = (None, st)"
| "apply_stream_loop app pf bpp (l # ls) st =
     (case apply_dentry_list app pf bpp (lte_dentry_list (ltes (snd st) l)) st of
        (Some e, st1) \<Rightarrow> (Some e, st1)
      | (None, st1) \<Rightarrow> apply_stream_loop app pf bpp ls st1)"

definition apply_stream_list ::
  "nat list \<Rightarrow> 'w apply_operations \<Rightarrow> bool \<Rightarrow> 'w xstate \<Rightarrow> ret \<times> 'w xstate" where
  "apply_stream_list stream_list ops progress_func s =
     (let bytes_per_progress = p_total_bytes (progress (args s)) div 100;
          next_progress = bytes_per_progress
      in case apply_stream_loop (apply_dentry ops) progress_func bytes_per_progress
                stream_list (next_progress, s) of
           (r, np, s') \<Rightarrow> (r, s'))"

text \<open>
  Modelled from the spec: \<^verbatim>\<open>cmp_streams_by_wim_position\<close> is defined with the
  lookup table, outside the two files.  The spec (section 4.5, step 1): the stream list
  is sorted by archive offset.  As a \<^verbatim>\<open>qsort\<close> comparison it is negative, zero
  or positive as the first offset is less than, equal to or greater than the second.
\<close>

definition cmp_streams_by_wim_position ::
  "wim_lookup_table_entry \<Rightarrow> wim_lookup_table_entry \<Rightarrow> int" where
  "cmp_streams_by_wim_position lte1 lte2 =
     (if re_offset (lte_resource_entry lte1) < re_offset (lte_resource_entry lte2) then - 1
      else if re_offset (lte_resource_entry lte2) < re_offset (lte_resource_entry lte1) then 1
      else 0)"

text \<open>
  \<^verbatim>\<open>sort_stream_list_by_wim_position\<close> (extract.c, lines 344-376).  The array holds
  the entry addresses in list order; \<^verbatim>\<open>qsort\<close> compares two of them through the
  entries they point to.  On a failed allocation the list is left as it was.
\<close>

definition sort_stream_list_by_wim_position ::
  "'w xenv \<Rightarrow> nat list \<Rightarrow> 'w xstate \<Rightarrow> ret \<times> nat list \<times> 'w xstate" where
  "sort_stream_list_by_wim_position env stream_list s =
     (let num_streams = length stream_list;
          array_size = num_streams * sizeof_pointer env
      in if \<not> malloc env array_size
         then (Some WIMLIB_ERR_NOMEM, stream_list,
               log_event (Error ''Failed to allocate bytes to sort stream entries'') s)
         else
           let array = stream_list;
               sorted_array = qsort env (\<lambda>p1 p2. cmp_streams_by_wim_position
                                                   (ltes s p1) (ltes s p2)) array
           in (None, sorted_array, s))"

text \<open>\<^verbatim>\<open>extract_dentry_to_stdout\<close> (extract.c, lines 385-403).\<close>

definition STDOUT_FILENO :: nat where
  "STDOUT_FILENO = 1"

definition extract_dentry_to_stdout ::
  "'w xenv \<Rightarrow> wim_dentry \<Rightarrow> 'w xstate \<Rightarrow> ret \<times> 'w xstate" where
  "extract_dentry_to_stdout env dentry s =
     (if \<not> i_is_regular_file (inodes s (d_inode dentry))
      then (Some WIMLIB_ERR_NOT_A_REGULAR_FILE,
            log_event (Error ''is not a regular file and therefore cannot be extracted to standard output'') s)
      else case inode_unnamed_lte_resolved (inodes s (d_inode dentry)) of
             None \<Rightarrow> (None, s)
           | Some lte \<Rightarrow>
               extract_wim_resource_to_fd env lte STDOUT_FILENO
                 (wim_resource_size (ltes s lte)) s)"

text \<open>\<^verbatim>\<open>dentry_reset_needs_extraction\<close> (extract.c, lines 268-274).\<close>

definition dentry_reset_needs_extraction :: "wim_dentry \<Rightarrow> 'w xstate \<Rightarrow> ret \<times> 'w xstate" where
  "dentry_reset_needs_extraction dentry s =
     (None, s\<lparr>needs_extraction := (needs_extraction s)(d_id dentry := False),
              inodes := (inodes s)(d_inode dentry :=
                 (inodes s (d_inode dentry))\<lparr>i_visited := False\<rparr>)\<rparr>)"

section \<open>\<^verbatim>\<open>extract_tree\<close>\<close>

text \<open>
  \<^verbatim>\<open>extract_tree\<close> (extract.c, lines 440-594) leaves through four labels.  Each
  label is a function from the return value and the state reached to the result of
  \<^verbatim>\<open>extract_tree\<close>, written last label first.
\<close>

text \<open>Label \<^verbatim>\<open>out_ntfs_umount\<close> (lines 580-593).\<close>

definition out_ntfs_umount ::
  "build \<Rightarrow> 'w xenv \<Rightarrow> u32 \<Rightarrow> ret \<times> 'w xstate \<Rightarrow> ret \<times> 'w xstate" where
  "out_ntfs_umount b env xflags = (\<lambda>(r, s).
     if WITH_NTFS_3G b \<and> flag_set xflags WIMLIB_EXTRACT_FLAG_NTFS
     then
       (case ntfs_umount env (world s) of
          (True, w) \<Rightarrow> (r, s\<lparr>world := w\<rparr>)
        | (False, w) \<Rightarrow>
            (if r = None then Some WIMLIB_ERR_NTFS_3G else r,
             log_event (Error ''Failed to unmount NTFS volume'') (s\<lparr>world := w\<rparr>)))
     else (r, s))"

text \<open>Label \<^verbatim>\<open>out_dentry_reset_needs_extraction\<close> (lines 578-579).\<close>

definition out_dentry_reset_needs_extraction ::
  "build \<Rightarrow> 'w xenv \<Rightarrow> u32 \<Rightarrow> wim_dentry \<Rightarrow> ret \<times> 'w xstate \<Rightarrow> ret \<times> 'w xstate" where
  "out_dentry_reset_needs_extraction b env xflags root = (\<lambda>(r, s).
     out_ntfs_umount b env xflags
       (r, snd (for_dentry_in_tree root dentry_reset_needs_extraction s)))"

text \<open>
  Label \<^verbatim>\<open>out_free_target_realpath\<close> (lines 576-577): the string is freed, which
  the state does not record.
\<close>

definition out_free_target_realpath ::
  "build \<Rightarrow> 'w xenv \<Rightarrow> u32 \<Rightarrow> wim_dentry \<Rightarrow> ret \<times> 'w xstate \<Rightarrow> ret \<times> 'w xstate" where
  "out_free_target_realpath b env xflags root rs =
     out_dentry_reset_needs_extraction b env xflags root rs"

text \<open>
  Lines 555-575: the stream payloads, the timestamps and the closing progress message.
\<close>

definition extract_streams_and_timestamps ::
  "build \<Rightarrow> 'w xenv \<Rightarrow> 'w apply_operations \<Rightarrow> string \<Rightarrow> u32 \<Rightarrow> bool \<Rightarrow> wim_dentry \<Rightarrow>
   nat list \<Rightarrow> 'w xstate \<Rightarrow> ret \<times> 'w xstate" where
  "extract_streams_and_timestamps b env ops wsp xflags progress_func root stream_list s =
     (case apply_stream_list stream_list ops progress_func s of
        (Some e, s1) \<Rightarrow> out_free_target_realpath b env xflags root (Some e, s1)
      | (None, s1) \<Rightarrow>
          let s2 = (if progress_func then progress_call APPLY_TIMESTAMPS s1 else s1)
          in case for_dentry_in_tree_depth root (apply_dentry_timestamps ops) s2 of
               (Some e, s3) \<Rightarrow> out_free_target_realpath b env xflags root (Some e, s3)
             | (None, s3) \<Rightarrow>
                 let s4 = (if progress_func
                           then progress_call (if wsp \<noteq> [] then EXTRACT_TREE_END
                                               else EXTRACT_IMAGE_END) s3
                           else s3)
                 in out_free_target_realpath b env xflags root (None, s4))"

text \<open>
  Lines 528-553: the directory structure, with \<^verbatim>\<open>NO_STREAMS\<close> set in
  \<^verbatim>\<open>args.extract_flags\<close> for the walk, then \<^verbatim>\<open>realpath\<close> of the target when
  reparse point fixups are on.  \<open>xflags\<close> is the local \<^verbatim>\<open>extract_flags\<close> as the
  sort has left it.
\<close>

definition extract_dir_structure ::
  "build \<Rightarrow> 'w xenv \<Rightarrow> 'w apply_operations \<Rightarrow> string \<Rightarrow> string \<Rightarrow> u32 \<Rightarrow> bool \<Rightarrow>
   wim_dentry \<Rightarrow> nat list \<Rightarrow> 'w xstate \<Rightarrow> ret \<times> 'w xstate" where
  "extract_dir_structure b env ops wsp tgt xflags progress_func root stream_list s =
     (let s1 = (if progress_func then progress_call EXTRACT_DIR_STRUCTURE_BEGIN s else s);
          s2 = s1\<lparr>args := (args s1)\<lparr>extract_flags :=
                   extract_flags (args s1) OR WIMLIB_EXTRACT_FLAG_NO_STREAMS\<rparr>\<rparr>;
          (r, s3) = for_dentry_in_tree root (maybe_apply_dentry (apply_dentry ops)) s2;
          s4 = s3\<lparr>args := (args s3)\<lparr>extract_flags :=
                   extract_flags (args s3) AND NOT WIMLIB_EXTRACT_FLAG_NO_STREAMS\<rparr>\<rparr>
      in if r \<noteq> None then out_dentry_reset_needs_extraction b env xflags root (r, s4)
         else
           let s5 = (if progress_func then progress_call EXTRACT_DIR_STRUCTURE_END s4 else s4)
           in if flag_set xflags WIMLIB_EXTRACT_FLAG_RPFIX
              then (case realpath env tgt (world s5) of
                      None \<Rightarrow> out_dentry_reset_needs_extraction b env xflags root
                                (Some WIMLIB_ERR_NOMEM, s5)
                    | Some rp \<Rightarrow>
                        extract_streams_and_timestamps b env ops wsp xflags progress_func
                          root stream_list
                          (s5\<lparr>args := (args s5)\<lparr>target_realpath := Some rp,
                                                 target_realpath_len := length rp\<rparr>\<rparr>))
              else extract_streams_and_timestamps b env ops wsp xflags progress_func
                     root stream_list s5)"

text \<open>
  Lines 497-526: planning, the byte count, the \<^verbatim>\<open>TO_STDOUT\<close> branch, the opening
  progress message and the sort for a sequential extraction.
\<close>

definition extract_planned ::
  "build \<Rightarrow> 'w xenv \<Rightarrow> 'w apply_operations \<Rightarrow> string \<Rightarrow> string \<Rightarrow> u32 \<Rightarrow> bool \<Rightarrow>
   wim_dentry \<Rightarrow> 'w xstate \<Rightarrow> ret \<times> 'w xstate" where
  "extract_planned b env ops wsp tgt xflags progress_func root s =
     (let (stream_list, s1) = find_streams_for_extraction b root xflags s;
          s2 = calculate_bytes_to_extract stream_list xflags s1
      in if flag_set xflags WIMLIB_EXTRACT_FLAG_TO_STDOUT
         then out_dentry_reset_needs_extraction b env xflags root
                (extract_dentry_to_stdout env root s2)
         else
           let s3 = (if progress_func
                     then progress_call (if wsp \<noteq> [] then EXTRACT_TREE_BEGIN
                                         else EXTRACT_IMAGE_BEGIN) s2
                     else s2)
           in if flag_set xflags WIMLIB_EXTRACT_FLAG_SEQUENTIAL
              then (case sort_stream_list_by_wim_position env stream_list s3 of
                      (None, stream_list', s4) \<Rightarrow>
                        extract_dir_structure b env ops wsp tgt xflags progress_func
                          root stream_list' s4
                    | (Some e, stream_list', s4) \<Rightarrow>
                        extract_dir_structure b env ops wsp tgt
                          (xflags AND NOT WIMLIB_EXTRACT_FLAG_SEQUENTIAL) progress_func
                          root stream_list'
                          (log_event (Warning ''Falling back to non-sequential extraction'') s4))
              else extract_dir_structure b env ops wsp tgt xflags progress_func
                     root stream_list s3)"

text \<open>Lines 484-495: the extraction root and the full paths of its subtree.\<close>

definition extract_from_root ::
  "build \<Rightarrow> 'w xenv \<Rightarrow> 'w apply_operations \<Rightarrow> string \<Rightarrow> string \<Rightarrow> u32 \<Rightarrow> bool \<Rightarrow>
   'w xstate \<Rightarrow> ret \<times> 'w xstate" where
  "extract_from_root b env ops wsp tgt xflags progress_func s =
     (case get_dentry env (wim s) wsp of
        None \<Rightarrow>
          out_ntfs_umount b env xflags
            (Some WIMLIB_ERR_PATH_DOES_NOT_EXIST,
             log_event (Error ''Path does not exist in WIM image'') s)
      | Some root0 \<Rightarrow>
          let s1 = s\<lparr>args := (args s)\<lparr>extract_root := d_id root0\<rparr>\<rparr>
          in case calculate_dentry_tree_full_paths env root0 of
               Inl e \<Rightarrow> out_ntfs_umount b env xflags (Some e, s1)
             | Inr root \<Rightarrow>
                 extract_planned b env ops wsp tgt xflags progress_func root s1)"

text \<open>
  \<^verbatim>\<open>extract_tree\<close>, lines 444-482: \<^verbatim>\<open>args\<close> is zeroed and filled in, and the
  NTFS volume is mounted when the build has NTFS-3g and the flag asks for it.
\<close>

definition zero_progress :: progress_extract where
  "zero_progress = \<lparr>p_image = 0, p_extract_flags = 0, p_wimfile_name = None,
     p_image_name = None, p_extract_root_wim_source_path = [], p_target = [],
     p_cur_path = [], p_num_streams = 0, p_total_bytes = 0, p_completed_bytes = 0\<rparr>"

definition zero_args :: apply_args where
  "zero_args = \<lparr>target = [], target_nchars = 0, wim_source_path_nchars = 0,
     extract_root = 0, extract_flags = 0, has_progress_func = False,
     progress = zero_progress, target_realpath = None, target_realpath_len = 0\<rparr>"

definition init_args :: "'w xenv \<Rightarrow> string \<Rightarrow> string \<Rightarrow> u32 \<Rightarrow> bool \<Rightarrow> 'w xstate \<Rightarrow> apply_args" where
  "init_args env wsp tgt xflags progress_func s =
     (let a = zero_args\<lparr>target := tgt, extract_flags := xflags,
                         has_progress_func := progress_func,
                         target_nchars := length tgt,
                         wim_source_path_nchars := length wsp\<rparr>
      in if progress_func
         then a\<lparr>progress := (progress a)
                  \<lparr>p_wimfile_name := wim_filename (wim s),
                   p_image := wim_current_image (wim s),
                   p_extract_flags := xflags AND WIMLIB_EXTRACT_MASK_PUBLIC,
                   p_image_name := wimlib_get_image_name env (wim s) (wim_current_image (wim s)),
                   p_extract_root_wim_source_path := wsp,
                   p_target := tgt\<rparr>\<rparr>
         else a)"

definition extract_tree ::
  "build \<Rightarrow> 'w xenv \<Rightarrow> string \<Rightarrow> string \<Rightarrow> u32 \<Rightarrow> bool \<Rightarrow> 'w xstate \<Rightarrow> ret \<times> 'w xstate" where
  "extract_tree b env wsp tgt xflags progress_func s =
     (let s1 = s\<lparr>args := init_args env wsp tgt xflags progress_func s\<rparr>
      in if WITH_NTFS_3G b \<and> flag_set xflags WIMLIB_EXTRACT_FLAG_NTFS
         then (case ntfs_mount env tgt (world s1) of
                 (False, w) \<Rightarrow>
                   (Some WIMLIB_ERR_NTFS_3G,
                    log_event (Error ''Failed to mount NTFS volume'') (s1\<lparr>world := w\<rparr>))
               | (True, w) \<Rightarrow>
                   extract_from_root b env (ntfs_apply_operations env) wsp tgt xflags
                     progress_func (s1\<lparr>world := w\<rparr>))
         else extract_from_root b env (normal_apply_operations env) wsp tgt xflags
                progress_func s1)"

section \<open>The public entry points of extract.c\<close>

text \<open>
  Modelled from the spec: \<^verbatim>\<open>WIM_HDR_FLAG_RP_FIX\<close> and \<^verbatim>\<open>WIMLIB_ALL_IMAGES\<close>
  are defined in the library's headers, which are not among the two files.  The spec
  (section 4.5) speaks of the archive header declaring reparse point fixups, and
  (section 6) of the img selector \<open>img | ALL\<close>.
\<close>

definition WIM_HDR_FLAG_RP_FIX :: u32 where "WIM_HDR_FLAG_RP_FIX = 0x00000080"

definition WIMLIB_ALL_IMAGES :: int where "WIMLIB_ALL_IMAGES = - 1"

record wimlib_extract_command =
  wim_source_path :: string
  fs_dest_path :: string
  c_extract_flags :: u32

definition link_flags :: u32 where
  "link_flags = WIMLIB_EXTRACT_FLAG_SYMLINK OR WIMLIB_EXTRACT_FLAG_HARDLINK"

definition rpfix_flags :: u32 where
  "rpfix_flags = WIMLIB_EXTRACT_FLAG_RPFIX OR WIMLIB_EXTRACT_FLAG_NORPFIX"

text \<open>
  \<^verbatim>\<open>check_extract_command\<close> (extract.c, lines 596-685): the return value, the
  command with its flags as the function leaves them, and the state with the error
  messages.
\<close>

definition check_extract_command ::
  "build \<Rightarrow> wimlib_extract_command \<Rightarrow> u32 \<Rightarrow> 'w xstate \<Rightarrow>
   ret \<times> wimlib_extract_command \<times> 'w xstate" where
  "check_extract_command b cmd wim_header_flags s =
     (let is_entire_image = (wim_source_path cmd = []);
          xflags = c_extract_flags cmd
      in if fs_dest_path cmd = [] then (Some WIMLIB_ERR_INVALID_PARAM, cmd, s)
         else if xflags AND link_flags = link_flags
         then (Some WIMLIB_ERR_INVALID_PARAM, cmd, s)
         else if WIN32 b \<and> flag_set xflags WIMLIB_EXTRACT_FLAG_UNIX_DATA
         then (Some WIMLIB_ERR_INVALID_PARAM, cmd,
               log_event (Error ''Extracting UNIX data is not supported on Windows'') s)
         else if WIN32 b \<and> flag_set xflags link_flags
         then (Some WIMLIB_ERR_INVALID_PARAM, cmd,
               log_event (Error ''Linked extraction modes are not supported on Windows'') s)
         else if flag_set xflags WIMLIB_EXTRACT_FLAG_NTFS \<and> \<not> WITH_NTFS_3G b
         then (Some WIMLIB_ERR_UNSUPPORTED, cmd,
               log_event (Error ''we cannot apply a WIM img directly to a NTFS volume'')
                 (log_event (Error ''wimlib was compiled without support for NTFS-3g, so'') s))
         else if flag_set xflags WIMLIB_EXTRACT_FLAG_NTFS \<and> flag_set xflags link_flags
         then (Some WIMLIB_ERR_INVALID_PARAM, cmd,
               log_event (Error ''Cannot specify symlink or hardlink flags when applying directly to a NTFS volume'') s)
         else if flag_set xflags WIMLIB_EXTRACT_FLAG_NTFS \<and> \<not> is_entire_image
         then (Some WIMLIB_ERR_INVALID_PARAM, cmd,
               log_event (Error ''When applying directly to a NTFS volume you can only extract a full img, not part of one'') s)
         else if flag_set xflags WIMLIB_EXTRACT_FLAG_NTFS \<and>
                 flag_set xflags WIMLIB_EXTRACT_FLAG_UNIX_DATA
         then (Some WIMLIB_ERR_INVALID_PARAM, cmd,
               log_event (Error ''Cannot restore UNIX-specific data in the NTFS extraction mode'') s)
         else if xflags AND rpfix_flags = rpfix_flags
         then (Some WIMLIB_ERR_INVALID_PARAM, cmd,
               log_event (Error ''Cannot specify RPFIX and NORPFIX flags at the same time!'') s)
         else
           let xflags1 = (if xflags AND rpfix_flags = 0 \<and>
                             flag_set wim_header_flags WIM_HDR_FLAG_RP_FIX \<and> is_entire_image
                          then xflags OR WIMLIB_EXTRACT_FLAG_RPFIX else xflags)
           in if \<not> is_entire_image \<and> flag_set xflags1 WIMLIB_EXTRACT_FLAG_RPFIX
              then (Some WIMLIB_ERR_INVALID_PARAM, cmd,
                    log_event (Error ''Cannot specify --rpfix when not extracting entire image'') s)
              else (None, cmd\<lparr>c_extract_flags := xflags1\<rparr>, s))"

text \<open>
  \<^verbatim>\<open>do_wimlib_extract_files\<close> (extract.c, lines 688-740).  The first loop checks
  the commands in turn and keeps the two locals \<^verbatim>\<open>found_link_cmd\<close> and
  \<^verbatim>\<open>found_nolink_cmd\<close>; it yields the checked commands.  The second loop runs
  \<^verbatim>\<open>extract_tree\<close> on each.
\<close>

fun check_commands ::
  "build \<Rightarrow> wimlib_extract_command list \<Rightarrow> bool \<times> bool \<Rightarrow> 'w xstate \<Rightarrow>
   ret \<times> wimlib_extract_command list \<times> 'w xstate" where
  "check_commands b [] found s = (None, [], s)"
| "check_commands b (cmd # cmds) found s =
     (case check_extract_command b cmd (wim_hdr_flags (wim s)) s of
        (Some e, cmd1, s1) \<Rightarrow> (Some e, cmd1 # cmds, s1)
      | (None, cmd1, s1) \<Rightarrow>
          let found1 = (if flag_set (c_extract_flags cmd1) link_flags
                        then (True, snd found) else (fst found, True))
          in if fst found1 \<and> snd found1
             then (Some WIMLIB_ERR_INVALID_PARAM, cmd1 # cmds,
                   log_event (Error ''Symlink or hardlink extraction mode must be set on all extraction commands'') s1)
             else (case check_commands b cmds found1 s1 of
                     (r, cmds1, s2) \<Rightarrow> (r, cmd1 # cmds1, s2)))"

fun execute_commands ::
  "build \<Rightarrow> 'w xenv \<Rightarrow> wimlib_extract_command list \<Rightarrow> bool \<Rightarrow> 'w xstate \<Rightarrow> ret \<times> 'w xstate" where
  "execute_commands b env [] progress_func s = (None, s)"
| "execute_commands b env (cmd # cmds) progress_func s =
     (case extract_tree b env (wim_source_path cmd) (fs_dest_path cmd)
             (c_extract_flags cmd) progress_func s of
        (Some e, s1) \<Rightarrow> (Some e, s1)
      | (None, s1) \<Rightarrow> execute_commands b env cmds progress_func s1)"

definition do_wimlib_extract_files ::
  "build \<Rightarrow> 'w xenv \<Rightarrow> int \<Rightarrow> wimlib_extract_command list \<Rightarrow> bool \<Rightarrow> 'w xstate \<Rightarrow>
   ret \<times> 'w xstate" where
  "do_wimlib_extract_files b env img cmds progress_func s =
     (case select_wim_image env img s of
        (Some e, s1) \<Rightarrow> (Some e, s1)
      | (None, s1) \<Rightarrow>
          (case wim_checksum_unhashed_streams env s1 of
             (Some e, s2) \<Rightarrow> (Some e, s2)
           | (None, s2) \<Rightarrow>
               (case check_commands b cmds (False, False) s2 of
                  (Some e, cmds1, s3) \<Rightarrow> (Some e, s3)
                | (None, cmds1, s3) \<Rightarrow> execute_commands b env cmds1 progress_func s3)))"

text \<open>
  Modelled from the spec: \<^verbatim>\<open>for_lookup_table_entry\<close> with
  \<^verbatim>\<open>lte_free_extracted_file\<close> is defined with the lookup table, outside the two
  files.  The spec (section 3): the transient \<open>extracted_file\<close> marker of the stream
  descriptors is cleared at extraction end.
\<close>

definition free_extracted_files :: "'w xstate \<Rightarrow> 'w xstate" where
  "free_extracted_files s = s\<lparr>ltes := (\<lambda>l. (ltes s l)\<lparr>extracted_file := None\<rparr>)\<rparr>"

text \<open>
  \<^verbatim>\<open>wimlib_extract_files\<close> (extract.c, lines 742-815).  \<open>copy_commands\<close> is the loop
  that fills \<^verbatim>\<open>cmds_copy\<close>: it yields the copies and \<^verbatim>\<open>all_flags\<close>, or fails when
  a path cannot be canonicalized.  The split archives are a list of handles.
\<close>

fun copy_commands ::
  "'w xenv \<Rightarrow> u32 \<Rightarrow> wimlib_extract_command list \<Rightarrow> u32 \<Rightarrow>
   wimlib_error + (wimlib_extract_command list \<times> u32)" where
  "copy_commands env default_extract_flags [] all_flags = Inr ([], all_flags)"
| "copy_commands env default_extract_flags (cmd # cmds) all_flags =
     (let xflags = (default_extract_flags OR c_extract_flags cmd) AND WIMLIB_EXTRACT_MASK_PUBLIC;
          all_flags1 = all_flags OR xflags
      in case canonicalize_wim_path env (wim_source_path cmd) of
           None \<Rightarrow> Inl WIMLIB_ERR_NOMEM
         | Some wsp \<Rightarrow>
             (case canonicalize_fs_path env (fs_dest_path cmd) of
                None \<Rightarrow> Inl WIMLIB_ERR_NOMEM
              | Some dest \<Rightarrow>
                  (case copy_commands env default_extract_flags cmds all_flags1 of
                     Inl e \<Rightarrow> Inl e
                   | Inr (copies, all_flags2) \<Rightarrow>
                       Inr (\<lparr>wim_source_path = wsp, fs_dest_path = dest,
                             c_extract_flags = xflags\<rparr> # copies, all_flags2))))"

definition out_restore_lookup_table :: "'w xenv \<Rightarrow> nat list \<Rightarrow> ret \<times> 'w xstate \<Rightarrow> ret \<times> 'w xstate" where
  "out_restore_lookup_table env additional_swms = (\<lambda>(r, s).
     if additional_swms \<noteq> [] then (r, unmerge_lookup_table env s) else (r, s))"

definition wimlib_extract_files ::
  "build \<Rightarrow> 'w xenv \<Rightarrow> int \<Rightarrow> wimlib_extract_command list \<Rightarrow> u32 \<Rightarrow> nat list \<Rightarrow> bool \<Rightarrow>
   'w xstate \<Rightarrow> ret \<times> 'w xstate" where
  "wimlib_extract_files b env img cmds default_extract_flags additional_swms progress_func s =
     (let default_flags = default_extract_flags AND WIMLIB_EXTRACT_MASK_PUBLIC
      in case verify_swm_set env additional_swms s of
           Some e \<Rightarrow> (Some e, s)
         | None \<Rightarrow>
             if cmds = [] then (None, s)
             else
               let s1 = (if additional_swms \<noteq> [] then merge_lookup_tables env additional_swms s
                         else s)
               in if \<not> calloc env (length cmds)
                  then out_restore_lookup_table env additional_swms (Some WIMLIB_ERR_NOMEM, s1)
                  else (case copy_commands env default_flags cmds 0 of
                          Inl e \<Rightarrow> out_restore_lookup_table env additional_swms (Some e, s1)
                        | Inr (cmds_copy, all_flags) \<Rightarrow>
                            (case do_wimlib_extract_files b env img cmds_copy progress_func s1 of
                               (r, s2) \<Rightarrow>
                                 out_restore_lookup_table env additional_swms
                                   (r, if flag_set all_flags link_flags
                                       then free_extracted_files s2 else s2))))"

text \<open>\<^verbatim>\<open>extract_single_image\<close> (extract.c, lines 833-850).\<close>

definition extract_single_image ::
  "build \<Rightarrow> 'w xenv \<Rightarrow> int \<Rightarrow> string \<Rightarrow> u32 \<Rightarrow> bool \<Rightarrow> 'w xstate \<Rightarrow> ret \<times> 'w xstate" where
  "extract_single_image b env img tgt xflags progress_func s =
     (case canonicalize_fs_path env tgt of
        None \<Rightarrow> (Some WIMLIB_ERR_NOMEM, s)
      | Some target_copy \<Rightarrow>
          do_wimlib_extract_files b env img
            [\<lparr>wim_source_path = [], fs_dest_path = target_copy, c_extract_flags = xflags\<rparr>]
            progress_func s)"

text \<open>\<^verbatim>\<open>image_name_ok_as_dir\<close> (extract.c, lines 852-870).\<close>

definition filename_forbidden_chars :: "build \<Rightarrow> string" where
  "filename_forbidden_chars b =
     (if WIN32 b then [CHR ''<'', CHR ''>'', CHR '':'', CHR 0x22, CHR ''/'', CHR 0x5C,
                        CHR ''|'', CHR ''?'', CHR ''*'']
      else ''/'')"

definition image_name_ok_as_dir :: "build \<Rightarrow> string option \<Rightarrow> bool" where
  "image_name_ok_as_dir b image_name =
     (case image_name of
        None \<Rightarrow> False
      | Some n \<Rightarrow> n \<noteq> [] \<and> \<not> list_ex (\<lambda>c. c \<in> set (filename_forbidden_chars b)) n \<and>
                  n \<noteq> ''.'' \<and> n \<noteq> ''..'')"

text \<open>The digits of \<^verbatim>\<open>tsprintf(..., "%d", image)\<close> for a positive image number.\<close>

fun decimal :: "nat \<Rightarrow> string" where
  "decimal n = (if n < 10 then [char_of (48 + n)]
                else decimal (n div 10) @ [char_of (48 + n mod 10)])"

text \<open>
  \<^verbatim>\<open>extract_all_images\<close> (extract.c, lines 872-923).  The loop runs over the images
  \<^verbatim>\<open>1 .. hdr.image_count\<close>; nothing in the two files writes the image count.
\<close>

fun extract_images_loop ::
  "build \<Rightarrow> 'w xenv \<Rightarrow> string \<Rightarrow> u32 \<Rightarrow> bool \<Rightarrow> int list \<Rightarrow> 'w xstate \<Rightarrow> ret \<times> 'w xstate" where
  "extract_images_loop b env tgt xflags progress_func [] s = (None, s)"
| "extract_images_loop b env tgt xflags progress_func (img # imgs) s =
     (let image_name = wimlib_get_image_name env (wim s) img;
          buf = tgt @ ''/'' @ (case image_name of
                                 Some n \<Rightarrow> if image_name_ok_as_dir b image_name then n
                                           else decimal (nat img)
                               | None \<Rightarrow> decimal (nat img))
      in case extract_single_image b env img buf xflags progress_func s of
           (Some e, s1) \<Rightarrow> (Some e, s1)
         | (None, s1) \<Rightarrow> extract_images_loop b env tgt xflags progress_func imgs s1)"

definition extract_all_images ::
  "build \<Rightarrow> 'w xenv \<Rightarrow> string \<Rightarrow> u32 \<Rightarrow> bool \<Rightarrow> 'w xstate \<Rightarrow> ret \<times> 'w xstate" where
  "extract_all_images b env tgt xflags progress_func s =
     (let imgs = [1 .. wim_hdr_image_count (wim s)];
          run = extract_images_loop b env tgt xflags progress_func imgs
      in case tstat env tgt (world s) of
           StatENOENT \<Rightarrow>
             (case tmkdir env tgt (world s) of
                (False, w) \<Rightarrow>
                  (Some WIMLIB_ERR_MKDIR,
                   log_event (Error ''Failed to create directory'') (s\<lparr>world := w\<rparr>))
              | (True, w) \<Rightarrow> run (s\<lparr>world := w\<rparr>))
         | StatError \<Rightarrow> (Some WIMLIB_ERR_STAT, log_event (Error ''Failed to stat'') s)
         | StatNotDir \<Rightarrow> (Some WIMLIB_ERR_NOTDIR, log_event (Error ''is not a directory'') s)
         | StatDir \<Rightarrow> run s)"

text \<open>\<^verbatim>\<open>wimlib_extract_image\<close> (extract.c, lines 925-966).\<close>

definition wimlib_extract_image ::
  "build \<Rightarrow> 'w xenv \<Rightarrow> int \<Rightarrow> string \<Rightarrow> u32 \<Rightarrow> nat list \<Rightarrow> bool \<Rightarrow> 'w xstate \<Rightarrow>
   ret \<times> 'w xstate" where
  "wimlib_extract_image b env img tgt extract_flags0 additional_swms progress_func s =
     (let xflags = extract_flags0 AND WIMLIB_EXTRACT_MASK_PUBLIC
      in case verify_swm_set env additional_swms s of
           Some e \<Rightarrow> (Some e, s)
         | None \<Rightarrow>
             let s1 = (if additional_swms \<noteq> [] then merge_lookup_tables env additional_swms s
                       else s);
                 (r, s2) = (if img = WIMLIB_ALL_IMAGES
                            then extract_all_images b env tgt
                                   (xflags OR WIMLIB_EXTRACT_FLAG_MULTI_IMAGE) progress_func s1
                            else extract_single_image b env img tgt xflags progress_func s1);
                 s3 = (if flag_set xflags link_flags then free_extracted_files s2 else s2)
             in out_restore_lookup_table env additional_swms (r, s3))"

section \<open>Definitions for the statements about the planner\<close>

text \<open>
  The stream descriptors of an inode that an extraction needs, as
  \<^verbatim>\<open>dentry_find_streams_to_extract\<close> selects them: the unnamed stream if it has a
  descriptor, and, where alternate data streams are included, every ADS entry with a
  non-empty name and a descriptor.
\<close>

definition inode_streams_to_extract :: "build \<Rightarrow> u32 \<Rightarrow> wim_inode \<Rightarrow> nat list" where
  "inode_streams_to_extract b xflags inode =
     (case inode_unnamed_lte_resolved inode of None \<Rightarrow> [] | Some lte \<Rightarrow> [lte]) @
     (if include_ads b xflags
      then concat (map (\<lambda>a. if stream_name_nbytes a \<noteq> 0
                              then (case ads_lte a of None \<Rightarrow> [] | Some lte \<Rightarrow> [lte])
                              else [])
                       (i_ads_entries inode))
      else [])"

text \<open>The sum of \<^verbatim>\<open>out_refcnt\<close> over the descriptors of a stream list.\<close>

definition out_refcnt_sum :: "nat list \<times> 'w xstate \<Rightarrow> nat" where
  "out_refcnt_sum = (\<lambda>(stream_list, s). sum_list (map (\<lambda>l. out_refcnt (ltes s l)) stream_list))"

text \<open>
  The number of (inode, stream) pairs needing extraction under a root: every inode
  that some dentry of the subtree points to is counted once.
\<close>

definition inode_stream_pairs :: "build \<Rightarrow> u32 \<Rightarrow> wim_dentry \<Rightarrow> 'w xstate \<Rightarrow> nat" where
  "inode_stream_pairs b f root s =
     sum_list (map (\<lambda>i. length (inode_streams_to_extract b f (inodes s i)))
                   (remdups (map d_inode (dentries_preorder root))))"

text \<open>The number of those pairs whose stream is the descriptor \<open>l\<close>.\<close>

definition inode_refs_to :: "build \<Rightarrow> u32 \<Rightarrow> wim_dentry \<Rightarrow> 'w xstate \<Rightarrow> nat \<Rightarrow> nat" where
  "inode_refs_to b f root s l =
     sum_list (map (\<lambda>i. count_list (inode_streams_to_extract b f (inodes s i)) l)
                   (remdups (map d_inode (dentries_preorder root))))"

text \<open>
  The number of (dentry, stream) pairs needing extraction under a root, in the words
  of the claim: one unit per dentry, hard links included.
\<close>

definition dentry_stream_pairs :: "build \<Rightarrow> u32 \<Rightarrow> wim_dentry \<Rightarrow> 'w xstate \<Rightarrow> nat" where
  "dentry_stream_pairs b f root s =
     sum_list (map (\<lambda>d. length (inode_streams_to_extract b f (inodes s (d_inode d))))
                   (dentries_preorder root))"

subsection \<open>Auxiliary definitions of the proofs\<close>

text \<open>
  The planner's effect on the stream list and on the \<^verbatim>\<open>out_refcnt\<close> fields, seen
  through \<open>cnt\<close>: one \<open>add1\<close> for every call of
  \<^verbatim>\<open>maybe_add_stream_for_extraction\<close>.
\<close>

definition cnt :: "'w xstate \<Rightarrow> nat \<Rightarrow> nat" where
  "cnt s = (\<lambda>l. out_refcnt (ltes s l))"

definition add1 :: "nat \<Rightarrow> nat list \<times> (nat \<Rightarrow> nat) \<Rightarrow> nat list \<times> (nat \<Rightarrow> nat)" where
  "add1 l = (\<lambda>(sl, c). (if c l = 0 then sl @ [l] else sl, c(l := Suc (c l))))"

definition ads_refs :: "ads_entry list \<Rightarrow> nat list" where
  "ads_refs as = concat (map (\<lambda>a. if stream_name_nbytes a \<noteq> 0
                              then (case ads_lte a of None \<Rightarrow> [] | Some lte \<Rightarrow> [lte])
                              else []) as)"

text \<open>The descriptors counted by a walk over a list of dentries, \<open>V\<close> the inodes already visited.\<close>

fun walk_refs :: "(nat \<Rightarrow> nat list) \<Rightarrow> wim_dentry list \<Rightarrow> nat set \<Rightarrow> nat list" where
  "walk_refs refs_of [] V = []"
| "walk_refs refs_of (d # ds) V =
     (if d_inode d \<in> V then [] else refs_of (d_inode d)) @
     walk_refs refs_of ds (insert (d_inode d) V)"

definition sl_inv :: "nat set \<Rightarrow> nat list \<times> (nat \<Rightarrow> nat) \<Rightarrow> bool" where
  "sl_inv Z = (\<lambda>(sl, c). distinct sl \<and> set sl \<subseteq> Z \<and> (\<forall>l \<in> Z. (l \<in> set sl) = (0 < c l)))"

definition stream_ltes :: "wim_inode \<Rightarrow> nat set" where
  "stream_ltes inode = {l. \<exists>k < Suc (length (i_ads_entries inode)). inode_stream_lte_resolved inode k = Some l}"

section \<open>Example inputs\<close>

definition ex_lte :: wim_lookup_table_entry where
  "ex_lte = \<lparr>lte_resource_entry = \<lparr>re_offset = 0, re_size = 100, re_original_size = 100, re_flags = 0\<rparr>,
     output_resource_entry = \<lparr>re_offset = 0, re_size = 0, re_original_size = 0, re_flags = 0\<rparr>,
     out_refcnt = 0, extracted_file = None, lte_dentry_list = []\<rparr>"

definition ex_dir_inode :: wim_inode where
  "ex_dir_inode = \<lparr>i_resolved = False, i_hash = 0, i_lte = None, i_ads_entries = [],
     i_visited = False, i_is_directory = True, i_is_regular_file = False\<rparr>"

definition ex_file_inode :: wim_inode where
  "ex_file_inode = \<lparr>i_resolved = False, i_hash = 7, i_lte = None, i_ads_entries = [],
     i_visited = False, i_is_directory = False, i_is_regular_file = True\<rparr>"

text \<open>A directory with two hard links \<^verbatim>\<open>/a\<close> and \<^verbatim>\<open>/b\<close> to one file (inode 1).\<close>

definition ex_hardlink_root :: wim_dentry where
  "ex_hardlink_root = Dentry 0 0 ''/'' 1 [Dentry 1 1 ''/a'' 2 [], Dentry 2 1 ''/b'' 2 []]"

definition ex_state :: "unit xstate" where
  "ex_state = \<lparr>wim = \<lparr>wim_filename = Some ''a.wim'', wim_current_image = 1,
       wim_hdr_flags = 0, wim_hdr_image_count = 1\<rparr>,
     lookup_table = (\<lambda>h. if h = 7 then Some 10 else None),
     ltes = (\<lambda>_. ex_lte),
     inodes = (\<lambda>i. if i = 0 then ex_dir_inode else ex_file_inode),
     needs_extraction = (\<lambda>_. False), args = zero_args, events = [], world = ()\<rparr>"

definition ex_build :: build where
  "ex_build = \<lparr>WITH_NTFS_3G = False, WIN32 = False\<rparr>"

section \<open>Properties\<close>

text \<open>
  C6.  For a dentry whose cached full path is a slash, then the wim path \<open>W\<close> of the
  extraction root, then a suffix \<open>S\<close>, the backend receives the target followed by one
  \<open>/\<close> and \<open>S\<close> when the dentry is not the extraction root, and the target alone when
  it is the extraction root.  The path lengths are the ones the source keeps:
  \<open>full_path_nbytes\<close> is the byte length of the cached path, \<open>target_nchars\<close> and
  \<open>wim_source_path_nchars\<close> are the lengths of the target and of \<open>W\<close>.
\<close>

theorem do_apply_op_output_path:
  assumes "0 < sz"
    and "full_path_nbytes dentry = length (full_path dentry) * sz"
    and "full_path dentry = CHR ''/'' # W @ S"
    and "wim_source_path_nchars a = length W"
    and "target_nchars a = length (target a)"
  shows "do_apply_op sz dentry a f =
           Some (if d_id dentry = extract_root a
                 then f (target a) (length (target a)) dentry a
                 else f (target a @ ''/'' @ S)
                        (length (target a) + 1 + length S) dentry a)"
  using assms by (simp add: do_apply_op_def Let_def)

theorem do_apply_op_output_path_witness:
  "do_apply_op 1 (Dentry 7 3 ''/a/b/c.txt'' 10 [])
      \<lparr>target = ''/tmp/out'', target_nchars = 8, wim_source_path_nchars = 3,
       extract_root = 5, extract_flags = 0, has_progress_func = False,
       progress = \<lparr>p_image = 1, p_extract_flags = 0, p_wimfile_name = None,
         p_image_name = None, p_extract_root_wim_source_path = ''a/b'',
         p_target = ''/tmp/out'', p_cur_path = [], p_num_streams = 0,
         p_total_bytes = 0, p_completed_bytes = 0\<rparr>,
       target_realpath = None, target_realpath_len = 0\<rparr>
      (\<lambda>path n d a. (path, n))
    = Some (''/tmp/out//c.txt'', 15)"
  using do_apply_op_output_path [of 1 "Dentry 7 3 ''/a/b/c.txt'' 10 []" "''a/b''" "''/c.txt''"
      "\<lparr>target = ''/tmp/out'', target_nchars = 8, wim_source_path_nchars = 3,
       extract_root = 5, extract_flags = 0, has_progress_func = False,
       progress = \<lparr>p_image = 1, p_extract_flags = 0, p_wimfile_name = None,
         p_image_name = None, p_extract_root_wim_source_path = ''a/b'',
         p_target = ''/tmp/out'', p_cur_path = [], p_num_streams = 0,
         p_total_bytes = 0, p_completed_bytes = 0\<rparr>,
       target_realpath = None, target_realpath_len = 0\<rparr>"
      "\<lambda>path n d a. (path, n)"]
  by simp

subsection \<open>The planner counts one unit per inode and stream\<close>

lemma maybe_add_abs:
  "maybe_add_stream_for_extraction l (sl, s) = (sl', s') \<Longrightarrow>
     (sl', cnt s') = add1 l (sl, cnt s) \<and> inodes s' = inodes s \<and> lookup_table s' = lookup_table s
     \<and> needs_extraction s' = needs_extraction s"
  by (auto simp: maybe_add_stream_for_extraction_def add1_def cnt_def Let_def fun_eq_iff split: if_splits)

lemma add_dentry_abs:
  "cnt (add_dentry_to_lte d l s) = cnt s \<and> inodes (add_dentry_to_lte d l s) = inodes s
   \<and> lookup_table (add_dentry_to_lte d l s) = lookup_table s
   \<and> needs_extraction (add_dentry_to_lte d l s) = needs_extraction s"
  by (auto simp: add_dentry_to_lte_def cnt_def fun_eq_iff)

lemma ads_fold_abs:
  "fold (ads_step d visited) as (added, sl, s) = (added', sl', s') \<Longrightarrow>
     (sl', cnt s') = fold add1 (if visited then [] else ads_refs as) (sl, cnt s)
     \<and> inodes s' = inodes s \<and> lookup_table s' = lookup_table s
     \<and> needs_extraction s' = needs_extraction s"
proof (induction as arbitrary: added sl s)
  case Nil
  then show ?case by (simp add: ads_refs_def)
next
  case (Cons a as)
  obtain a1 sl1 s1 where st: "ads_step d visited a (added, sl, s) = (a1, sl1, s1)"
    by (cases "ads_step d visited a (added, sl, s)") auto
  have one: "(sl1, cnt s1) = fold add1 (if visited then [] else ads_refs [a]) (sl, cnt s)
     \<and> inodes s1 = inodes s \<and> lookup_table s1 = lookup_table s
     \<and> needs_extraction s1 = needs_extraction s"
    using st
    by (auto simp: ads_step_def ads_refs_def add_dentry_abs Let_def
        split: if_splits option.splits prod.splits dest!: maybe_add_abs)
  from Cons.prems st have "fold (ads_step d visited) as (a1, sl1, s1) = (added', sl', s')"
    by simp
  from Cons.IH[OF this] one show ?case
    by (auto simp: ads_refs_def)
qed

lemma stream_lte_visited [simp]:
  "inode_stream_lte_resolved (inode\<lparr>i_visited := v\<rparr>) = inode_stream_lte_resolved inode"
  by (simp add: fun_eq_iff inode_stream_lte_resolved_def)

lemma stream_name_visited [simp]:
  "inode_stream_name_nbytes (inode\<lparr>i_visited := v\<rparr>) = inode_stream_name_nbytes inode"
  by (simp add: fun_eq_iff inode_stream_name_nbytes_def)

lemma stream_hash_visited [simp]:
  "inode_stream_hash (inode\<lparr>i_visited := v\<rparr>) = inode_stream_hash inode"
  by (simp add: fun_eq_iff inode_stream_hash_def)

lemma unnamed_visited [simp]:
  "inode_unnamed_lte_resolved (inode\<lparr>i_visited := v\<rparr>) = inode_unnamed_lte_resolved inode"
  by (simp add: inode_unnamed_lte_resolved_def del: upt_Suc cong: list.case_cong)

lemma inode_streams_visited [simp]:
  "inode_streams_to_extract b f (inode\<lparr>i_visited := v\<rparr>) = inode_streams_to_extract b f inode"
  by (simp add: inode_streams_to_extract_def)

lemma unnamed_step_abs:
  assumes "unnamed_step d v u (sl, s0) = (a1, sl1, s1)"
  shows "(sl1, cnt s1) = fold add1 (if v then [] else
        (case u of None \<Rightarrow> [] | Some lte \<Rightarrow> [lte])) (sl, cnt s0)
      \<and> inodes s1 = inodes s0 \<and> lookup_table s1 = lookup_table s0"
proof (cases u)
  case None
  with assms show ?thesis by (simp add: unnamed_step_def)
next
  case (Some lte)
  show ?thesis
  proof (cases v)
    case True
    with Some assms show ?thesis by (auto simp: unnamed_step_def add_dentry_abs)
  next
    case False
    obtain sl2 s2 where m: "maybe_add_stream_for_extraction lte (sl, s0) = (sl2, s2)"
      by (cases "maybe_add_stream_for_extraction lte (sl, s0)") auto
    from maybe_add_abs[OF m] Some False assms m show ?thesis
      by (auto simp: unnamed_step_def add_dentry_abs)
  qed
qed

lemma find_step_abs:
  assumes "dentry_find_streams_to_extract b f d (sl, s) = (r, sl', s')"
  shows "r = None \<and>
     (sl', cnt s') = fold add1 (if i_visited (inodes s (d_inode d)) then []
                                else inode_streams_to_extract b f (inodes s (d_inode d))) (sl, cnt s)
     \<and> inodes s' = (inodes s)(d_inode d := (inodes s (d_inode d))\<lparr>i_visited := True\<rparr>)
     \<and> lookup_table s' = lookup_table s"
proof -
  let ?s0 = "s\<lparr>needs_extraction := (needs_extraction s)(d_id d := True)\<rparr>"
  let ?inode = "inodes s (d_inode d)"
  let ?v = "i_visited ?inode"
  obtain a1 sl1 s1 where u: "unnamed_step d ?v (inode_unnamed_lte_resolved ?inode) (sl, ?s0) = (a1, sl1, s1)"
    by (cases "unnamed_step d ?v (inode_unnamed_lte_resolved ?inode) (sl, ?s0)") auto
  have c0: "cnt ?s0 = cnt s" by (simp add: cnt_def)
  note U = unnamed_step_abs[OF u]
  obtain a2 sl2 s2 where a: "(if include_ads b f
            then fold (ads_step d ?v) (i_ads_entries ?inode) (a1, sl1, s1)
            else (a1, sl1, s1)) = (a2, sl2, s2)"
    by (cases "(if include_ads b f
            then fold (ads_step d ?v) (i_ads_entries ?inode) (a1, sl1, s1)
            else (a1, sl1, s1))") auto
  have a_abs: "(sl2, cnt s2) = fold add1 (if ?v \<or> \<not> include_ads b f then []
         else ads_refs (i_ads_entries ?inode)) (sl1, cnt s1)
      \<and> inodes s2 = inodes s1 \<and> lookup_table s2 = lookup_table s1"
  proof (cases "include_ads b f")
    case True
    with a have "fold (ads_step d ?v) (i_ads_entries ?inode) (a1, sl1, s1) = (a2, sl2, s2)" by simp
    from ads_fold_abs[OF this] True show ?thesis by auto
  next
    case False
    with a show ?thesis by simp
  qed
  have res: "r = None \<and> sl' = sl2 \<and>
      s' = s2\<lparr>inodes := (inodes s2)(d_inode d := (inodes s2 (d_inode d))\<lparr>i_visited := True\<rparr>)\<rparr>"
  proof (cases "include_ads b f")
    case True
    with assms u a show ?thesis by (simp add: dentry_find_streams_to_extract_def Let_def)
  next
    case False
    with assms u a show ?thesis by (simp add: dentry_find_streams_to_extract_def Let_def)
  qed
  have c2: "cnt s' = cnt s2" using res by (simp add: cnt_def)
  have f1: "(sl1, cnt s1) = fold add1 (if ?v then [] else
        (case inode_unnamed_lte_resolved ?inode of None \<Rightarrow> [] | Some lte \<Rightarrow> [lte])) (sl, cnt s)"
    using U c0 by simp
  have split: "(if ?v then [] else inode_streams_to_extract b f ?inode) =
      (if ?v then [] else (case inode_unnamed_lte_resolved ?inode of None \<Rightarrow> [] | Some lte \<Rightarrow> [lte]))
      @ (if ?v \<or> \<not> include_ads b f then [] else ads_refs (i_ads_entries ?inode))"
    by (simp add: inode_streams_to_extract_def ads_refs_def)
  have "(sl', cnt s') = (sl2, cnt s2)" using res c2 by simp
  also have "\<dots> = fold add1 (if ?v then [] else inode_streams_to_extract b f ?inode) (sl, cnt s)"
    unfolding split fold_append using a_abs f1 by simp
  finally have main: "(sl', cnt s') = fold add1 (if ?v then [] else inode_streams_to_extract b f ?inode) (sl, cnt s)" .
  have i': "inodes s' = (inodes s)(d_inode d := (inodes s (d_inode d))\<lparr>i_visited := True\<rparr>)"
    using res a_abs U by simp
  have l': "lookup_table s' = lookup_table s"
    using res a_abs U by simp
  show ?thesis using res main i' l' by blast
qed

lemma walk_abs:
  assumes "for_dentry_list (dentry_find_streams_to_extract b f) ds (sl, s) = (r, sl', s')"
  shows "r = None \<and>
    (sl', cnt s') = fold add1 (walk_refs (\<lambda>i. inode_streams_to_extract b f (inodes s i)) ds
                                 {i. i_visited (inodes s i)}) (sl, cnt s)
    \<and> inodes s' = (\<lambda>i. if i \<in> d_inode ` set ds then (inodes s i)\<lparr>i_visited := True\<rparr> else inodes s i)
    \<and> lookup_table s' = lookup_table s"
  using assms
proof (induction ds arbitrary: sl s)
  case Nil
  then show ?case by simp
next
  case (Cons d ds)
  obtain r1 sl1 s1 where st: "dentry_find_streams_to_extract b f d (sl, s) = (r1, sl1, s1)"
    by (cases "dentry_find_streams_to_extract b f d (sl, s)") auto
  note A = find_step_abs[OF st]
  from Cons.prems st A have rest: "for_dentry_list (dentry_find_streams_to_extract b f) ds (sl1, s1) = (r, sl', s')"
    by simp
  note B = Cons.IH[OF rest]
  have refs_eq: "(\<lambda>i. inode_streams_to_extract b f (inodes s1 i)) =
                 (\<lambda>i. inode_streams_to_extract b f (inodes s i))"
    using A by (auto simp: fun_eq_iff)
  have V_eq: "{i. i_visited (inodes s1 i)} = insert (d_inode d) {i. i_visited (inodes s i)}"
    using A by auto
  have inod: "inodes s' = (\<lambda>i. if i \<in> d_inode ` set (d # ds) then (inodes s i)\<lparr>i_visited := True\<rparr> else inodes s i)"
    using A B by (auto simp: fun_eq_iff)
  have "(sl', cnt s') = fold add1 (walk_refs (\<lambda>i. inode_streams_to_extract b f (inodes s i)) ds
                                 (insert (d_inode d) {i. i_visited (inodes s i)})) (sl1, cnt s1)"
    using B unfolding refs_eq V_eq by simp
  also have "(sl1, cnt s1) = fold add1 (if i_visited (inodes s (d_inode d)) then []
                                else inode_streams_to_extract b f (inodes s (d_inode d))) (sl, cnt s)"
    using A by simp
  finally have main: "(sl', cnt s') = fold add1 (walk_refs (\<lambda>i. inode_streams_to_extract b f (inodes s i)) (d # ds)
                                 {i. i_visited (inodes s i)}) (sl, cnt s)"
    by simp
  show ?case using A B main inod by simp
qed

lemma walk_additive:
  fixes h :: "nat list \<Rightarrow> nat"
  assumes h0: "h [] = 0" and happ: "\<And>xs ys. h (xs @ ys) = h xs + h ys"
  shows "h (walk_refs g ds V) = (\<Sum>i \<in> d_inode ` set ds - V. h (g i))"
proof (induction ds arbitrary: V)
  case Nil
  show ?case by (simp add: h0)
next
  case (Cons d ds)
  let ?A = "d_inode ` set ds - insert (d_inode d) V"
  have IH: "h (walk_refs g ds (insert (d_inode d) V)) = (\<Sum>i \<in> ?A. h (g i))"
    by (rule Cons.IH)
  show ?case
  proof (cases "d_inode d \<in> V")
    case True
    then have eq: "d_inode ` set (d # ds) - V = ?A" by auto
    have "h (walk_refs g (d # ds) V) = h (walk_refs g ds (insert (d_inode d) V))"
      using True by (simp add: h0 happ)
    then show ?thesis unfolding eq IH .
  next
    case False
    then have eq: "d_inode ` set (d # ds) - V = insert (d_inode d) ?A" by auto
    have fin: "finite ?A" by simp
    have nin: "d_inode d \<notin> ?A" by simp
    have "h (walk_refs g (d # ds) V) = h (g (d_inode d)) + h (walk_refs g ds (insert (d_inode d) V))"
      using False by (simp add: happ)
    also have "\<dots> = h (g (d_inode d)) + (\<Sum>i \<in> ?A. h (g i))" unfolding IH ..
    also have "\<dots> = (\<Sum>i \<in> insert (d_inode d) ?A. h (g i))"
      using sum.insert[OF fin nin, of "\<lambda>i. h (g i)"] by simp
    finally show ?thesis unfolding eq .
  qed
qed

lemma length_walk_refs:
  "length (walk_refs g ds V) = (\<Sum>i \<in> d_inode ` set ds - V. length (g i))"
  by (rule walk_additive) simp_all

lemma count_walk_refs:
  "count_list (walk_refs g ds V) l = (\<Sum>i \<in> d_inode ` set ds - V. count_list (g i) l)"
  by (rule walk_additive[where h = "\<lambda>xs. count_list xs l"]) simp_all

lemma set_walk_refs:
  "set (walk_refs g ds V) \<subseteq> (\<Union>i \<in> d_inode ` set ds. set (g i))"
  by (induction ds arbitrary: V) (auto split: if_splits)

lemma fold_add1_cnt: "snd (fold add1 R (sl, c)) l = c l + count_list R l"
  by (induction R arbitrary: sl c) (auto simp: add1_def)

lemma sum_upd_notin:
  "l \<notin> set sl \<Longrightarrow> sum_list (map (c(l := v)) sl) = sum_list (map c sl)"
  by (induction sl) auto

lemma sum_upd_distinct:
  "l \<in> set sl \<Longrightarrow> distinct sl \<Longrightarrow>
     sum_list (map (c(l := Suc (c l))) sl) = Suc (sum_list (map c sl))"
proof (induction sl)
  case Nil
  then show ?case by simp
next
  case (Cons x xs)
  show ?case
  proof (cases "x = l")
    case True
    with Cons.prems have "l \<notin> set xs" by auto
    then have a: "sum_list (map (c(l := Suc (c l))) xs) = sum_list (map c xs)"
      by (rule sum_upd_notin)
    show ?thesis unfolding list.map sum_list.Cons a using True by simp
  next
    case False
    with Cons.prems have "l \<in> set xs" "distinct xs" by auto
    note b = Cons.IH[OF this]
    show ?thesis unfolding list.map sum_list.Cons b using False by simp
  qed
qed

lemma add1_inv:
  assumes "sl_inv Z (sl, c)" "l \<in> Z"
  shows "sl_inv Z (add1 l (sl, c))"
    and "sum_list (map (snd (add1 l (sl, c))) (fst (add1 l (sl, c)))) = Suc (sum_list (map c sl))"
proof -
  show "sl_inv Z (add1 l (sl, c))" using assms by (auto simp: sl_inv_def add1_def)
  show "sum_list (map (snd (add1 l (sl, c))) (fst (add1 l (sl, c)))) = Suc (sum_list (map c sl))"
  proof (cases "c l = 0")
    case True
    with assms have nin: "l \<notin> set sl" by (auto simp: sl_inv_def)
    have e: "add1 l (sl, c) = (sl @ [l], c(l := Suc (c l)))" using True by (simp add: add1_def)
    show ?thesis
      unfolding e fst_conv snd_conv map_append sum_list_append sum_upd_notin[OF nin]
      using True by simp
  next
    case False
    with assms have "l \<in> set sl" "distinct sl" by (auto simp: sl_inv_def)
    note b = sum_upd_distinct[OF this, of c]
    have e: "add1 l (sl, c) = (sl, c(l := Suc (c l)))" using False by (simp add: add1_def)
    show ?thesis unfolding e fst_conv snd_conv b by simp
  qed
qed

lemma fold_add1_inv:
  assumes "sl_inv Z (sl, c)" "set R \<subseteq> Z"
  shows "sl_inv Z (fold add1 R (sl, c)) \<and>
     sum_list (map (snd (fold add1 R (sl, c))) (fst (fold add1 R (sl, c)))) = sum_list (map c sl) + length R"
  using assms
proof (induction R arbitrary: sl c)
  case Nil
  then show ?case by simp
next
  case (Cons l R)
  obtain sl1 c1 where a: "add1 l (sl, c) = (sl1, c1)" by (cases "add1 l (sl, c)") auto
  from Cons.prems have lZ: "l \<in> Z" and RZ: "set R \<subseteq> Z" by auto
  from add1_inv[OF Cons.prems(1) lZ] a have i1: "sl_inv Z (sl1, c1)"
    and s1: "sum_list (map c1 sl1) = Suc (sum_list (map c sl))" by auto
  from Cons.IH[OF i1 RZ] s1 a show ?case by simp
qed

lemma zero_lte_props:
  "inodes (zero_lte_refcnt x s) = inodes s" "lookup_table (zero_lte_refcnt x s) = lookup_table s"
  "cnt (zero_lte_refcnt x s) l = (if x = Some l then 0 else cnt s l)"
  by (auto simp: zero_lte_refcnt_def cnt_def split: option.splits)

lemma fold_zero_props:
  "inodes (fold (\<lambda>i. zero_lte_refcnt (g i)) ks s) = inodes s \<and>
   lookup_table (fold (\<lambda>i. zero_lte_refcnt (g i)) ks s) = lookup_table s \<and>
   cnt (fold (\<lambda>i. zero_lte_refcnt (g i)) ks s) l = (if \<exists>k \<in> set ks. g k = Some l then 0 else cnt s l)"
  by (induction ks arbitrary: s) (auto simp: zero_lte_props)

lemma resolve_step:
  assumes "dentry_resolve_and_zero_lte_refcnt d s = (r, s')"
  shows "r = None"
    and "inodes s' = (inodes s)(d_inode d := inode_resolve_ltes (inodes s (d_inode d)) (lookup_table s))"
    and "lookup_table s' = lookup_table s"
    and "cnt s' l = (if l \<in> stream_ltes (inode_resolve_ltes (inodes s (d_inode d)) (lookup_table s)) then 0 else cnt s l)"
proof -
  let ?inode = "inode_resolve_ltes (inodes s (d_inode d)) (lookup_table s)"
  let ?s1 = "s\<lparr>inodes := (inodes s)(d_inode d := ?inode)\<rparr>"
  have e: "r = None \<and> s' = fold (\<lambda>i. zero_lte_refcnt (inode_stream_lte_resolved ?inode i))
                     [0 ..< Suc (length (i_ads_entries ?inode))] ?s1"
    using assms by (simp add: dentry_resolve_and_zero_lte_refcnt_def Let_def del: upt_Suc)
  note F = fold_zero_props[of "inode_stream_lte_resolved ?inode" "[0 ..< Suc (length (i_ads_entries ?inode))]" ?s1 l]
  show "r = None" using e by simp
  show "inodes s' = (inodes s)(d_inode d := ?inode)" using e F by simp
  show "lookup_table s' = lookup_table s" using e F by simp
  have c1: "cnt ?s1 = cnt s" by (simp add: cnt_def)
  show "cnt s' l = (if l \<in> stream_ltes ?inode then 0 else cnt s l)"
    using e F c1 by (auto simp: stream_ltes_def simp del: upt_Suc)
qed

lemma resolve_idem:
  "inode_resolve_ltes (inode_resolve_ltes x t) t = inode_resolve_ltes x t"
  by (simp add: inode_resolve_ltes_def)

lemma resolve_visited: "i_visited (inode_resolve_ltes x t) = i_visited x"
  by (simp add: inode_resolve_ltes_def)

lemma resolve_walk:
  assumes "for_dentry_list dentry_resolve_and_zero_lte_refcnt ds s = (r, s')"
  shows "r = None \<and>
     inodes s' = (\<lambda>i. if i \<in> d_inode ` set ds then inode_resolve_ltes (inodes s i) (lookup_table s) else inodes s i)
     \<and> lookup_table s' = lookup_table s
     \<and> (\<forall>l. cnt s' l = (if \<exists>i \<in> d_inode ` set ds. l \<in> stream_ltes (inode_resolve_ltes (inodes s i) (lookup_table s))
                     then 0 else cnt s l))"
  using assms
proof (induction ds arbitrary: s)
  case Nil
  then show ?case by simp
next
  case (Cons d ds)
  obtain r1 s1 where st: "dentry_resolve_and_zero_lte_refcnt d s = (r1, s1)"
    by (cases "dentry_resolve_and_zero_lte_refcnt d s") auto
  note A = resolve_step[OF st]
  from Cons.prems st A(1) have rest: "for_dentry_list dentry_resolve_and_zero_lte_refcnt ds s1 = (r, s')"
    by simp
  note B = Cons.IH[OF rest]
  have R: "\<And>i. inode_resolve_ltes (inodes s1 i) (lookup_table s1) = inode_resolve_ltes (inodes s i) (lookup_table s)
        \<or> (i \<noteq> d_inode d \<and> inodes s1 i = inodes s i)"
    using A(2,3) by (auto simp: resolve_idem)
  have R': "\<And>i. inode_resolve_ltes (inodes s1 i) (lookup_table s1) = inode_resolve_ltes (inodes s i) (lookup_table s)"
    using A(2,3) by (auto simp: resolve_idem)
  have i': "inodes s' = (\<lambda>i. if i \<in> d_inode ` set (d # ds) then inode_resolve_ltes (inodes s i) (lookup_table s) else inodes s i)"
    using B A(2) unfolding R' by (auto simp: fun_eq_iff)
  have c': "\<forall>l. cnt s' l = (if \<exists>i \<in> d_inode ` set (d # ds). l \<in> stream_ltes (inode_resolve_ltes (inodes s i) (lookup_table s))
                     then 0 else cnt s l)"
    using B A(4) unfolding R' by auto
  show ?case using B A(3) i' c' by simp
qed

lemma unnamed_in_stream_ltes:
  assumes "inode_unnamed_lte_resolved inode = Some l"
  shows "l \<in> stream_ltes inode"
proof -
  let ?P = "\<lambda>i. inode_stream_name_nbytes inode i = 0 \<and> inode_stream_hash inode i \<noteq> 0"
  let ?ks = "[0 ..< Suc (length (i_ads_entries inode))]"
  from assms obtain k ks where f: "filter ?P ?ks = k # ks" and r: "inode_stream_lte_resolved inode k = Some l"
    by (auto simp: inode_unnamed_lte_resolved_def simp del: upt_Suc split: list.splits)
  have "k \<in> set (filter ?P ?ks)" unfolding f by simp
  then have "k < Suc (length (i_ads_entries inode))" by (simp del: upt_Suc)
  with r show ?thesis unfolding stream_ltes_def by blast
qed

lemma ads_in_stream_ltes:
  assumes "a \<in> set (i_ads_entries inode)" "ads_lte a = Some l"
  shows "l \<in> stream_ltes inode"
proof -
  from assms(1) obtain k where k: "k < length (i_ads_entries inode)" "i_ads_entries inode ! k = a"
    by (auto simp: in_set_conv_nth)
  then have "inode_stream_lte_resolved inode (Suc k) = Some l"
    using assms(2) by (simp add: inode_stream_lte_resolved_def)
  moreover have "Suc k < Suc (length (i_ads_entries inode))" using k by simp
  ultimately show ?thesis unfolding stream_ltes_def by blast
qed

lemma streams_subset_ltes:
  "set (inode_streams_to_extract b f inode) \<subseteq> stream_ltes inode"
  by (auto simp: inode_streams_to_extract_def unnamed_in_stream_ltes ads_in_stream_ltes
      split: option.splits if_splits)

lemma planner_main:
  assumes nv: "\<forall>d \<in> set (dentries_preorder root). \<not> i_visited (inodes s (d_inode d))"
  shows "distinct (fst (find_streams_for_extraction b root f s)) \<and>
         out_refcnt_sum (find_streams_for_extraction b root f s) =
           inode_stream_pairs b f root (snd (find_streams_for_extraction b root f s)) \<and>
         (\<forall>l \<in> set (fst (find_streams_for_extraction b root f s)).
            out_refcnt (ltes (snd (find_streams_for_extraction b root f s)) l) =
              inode_refs_to b f root (snd (find_streams_for_extraction b root f s)) l)"
proof -
  define ds where "ds = dentries_preorder root"
  define I where "I = d_inode ` set ds"
  obtain r1 s1 where p1: "for_dentry_list dentry_resolve_and_zero_lte_refcnt ds s = (r1, s1)"
    by (cases "for_dentry_list dentry_resolve_and_zero_lte_refcnt ds s") auto
  obtain r2 sl s2 where p2: "for_dentry_list (dentry_find_streams_to_extract b f) ds ([], s1) = (r2, sl, s2)"
    by (cases "for_dentry_list (dentry_find_streams_to_extract b f) ds ([], s1)") auto
  have R: "find_streams_for_extraction b root f s = (sl, s2)"
    using p1 p2 by (simp add: find_streams_for_extraction_def for_dentry_in_tree_def ds_def Let_def)
  note B1 = resolve_walk[OF p1]
  note B2 = walk_abs[OF p2]
  define g where "g = (\<lambda>i. inode_streams_to_extract b f (inodes s1 i))"
  define V where "V = {i. i_visited (inodes s1 i)}"
  define W where "W = walk_refs g ds V"
  define Z where "Z = (\<Union>i \<in> I. stream_ltes (inodes s1 i))"
  have in1: "\<And>i. i \<in> I \<Longrightarrow> inodes s1 i = inode_resolve_ltes (inodes s i) (lookup_table s)"
    using B1 by (simp add: I_def)
  have VI: "I - V = I"
  proof -
    have "\<And>i. i \<in> I \<Longrightarrow> i \<notin> V"
      using nv in1 by (auto simp: V_def I_def ds_def resolve_visited)
    then show ?thesis by auto
  qed
  have z0: "\<And>l. l \<in> Z \<Longrightarrow> cnt s1 l = 0"
  proof -
    fix l assume "l \<in> Z"
    then obtain i where i: "i \<in> I" "l \<in> stream_ltes (inodes s1 i)" by (auto simp: Z_def)
    with in1 have "l \<in> stream_ltes (inode_resolve_ltes (inodes s i) (lookup_table s))" by simp
    with i(1) have "\<exists>i \<in> d_inode ` set ds. l \<in> stream_ltes (inode_resolve_ltes (inodes s i) (lookup_table s))"
      unfolding I_def by blast
    with B1 show "cnt s1 l = 0" by simp
  qed
  have WZ: "set W \<subseteq> Z"
  proof -
    have "set W \<subseteq> (\<Union>i \<in> d_inode ` set ds. set (g i))" unfolding W_def by (rule set_walk_refs)
    also have "\<dots> \<subseteq> Z" unfolding Z_def I_def g_def using streams_subset_ltes by fast
    finally show ?thesis .
  qed
  have inv0: "sl_inv Z ([], cnt s1)" using z0 by (simp add: sl_inv_def)
  have fo: "(sl, cnt s2) = fold add1 W ([], cnt s1)"
    using B2 unfolding W_def g_def V_def by simp
  note F = fold_add1_inv[OF inv0 WZ]
  have inv2: "sl_inv Z (sl, cnt s2)" using F fo by simp
  have sum2: "sum_list (map (cnt s2) sl) = length W" using F unfolding fo[symmetric] by simp
  have g2: "\<And>i. inode_streams_to_extract b f (inodes s2 i) = g i"
    using B2 by (simp add: g_def)
  have lenW: "length W = (\<Sum>i \<in> I. length (g i))"
    unfolding W_def length_walk_refs I_def[symmetric] VI ..
  have "(\<Sum>i \<in> I. length (g i)) = sum_list (map (\<lambda>i. length (g i)) (remdups (map d_inode ds)))"
    unfolding I_def using sum.distinct_set_conv_list[of "remdups (map d_inode ds)" "\<lambda>i. length (g i)"]
    by simp
  then have pairs: "inode_stream_pairs b f root s2 = length W"
    unfolding lenW inode_stream_pairs_def g2 ds_def by simp
  have c1: "out_refcnt_sum (sl, s2) = sum_list (map (cnt s2) sl)"
    by (simp add: out_refcnt_sum_def cnt_def)
  have per: "\<forall>l \<in> set sl. out_refcnt (ltes s2 l) = inode_refs_to b f root s2 l"
  proof
    fix l assume l: "l \<in> set sl"
    with inv2 have "l \<in> Z" by (auto simp: sl_inv_def)
    then have "cnt s1 l = 0" by (rule z0)
    moreover have "cnt s2 l = cnt s1 l + count_list W l"
      using fold_add1_cnt[of W "[]" "cnt s1" l] unfolding fo[symmetric] by simp
    moreover have "count_list W l = (\<Sum>i \<in> I. count_list (g i) l)"
      unfolding W_def count_walk_refs I_def[symmetric] VI ..
    moreover have "(\<Sum>i \<in> I. count_list (g i) l) = sum_list (map (\<lambda>i. count_list (g i) l) (remdups (map d_inode ds)))"
      unfolding I_def using sum.distinct_set_conv_list[of "remdups (map d_inode ds)" "\<lambda>i. count_list (g i) l"]
      by simp
    ultimately show "out_refcnt (ltes s2 l) = inode_refs_to b f root s2 l"
      unfolding inode_refs_to_def g2 ds_def by (simp add: cnt_def)
  qed
  have d: "distinct sl" using inv2 by (simp add: sl_inv_def)
  show ?thesis unfolding R fst_conv snd_conv using d c1 sum2 pairs per by simp
qed

lemmas ex_defs = ex_state_def ex_build_def ex_hardlink_root_def ex_file_inode_def ex_dir_inode_def
  ex_lte_def zero_args_def zero_progress_def

lemmas planner_defs = find_streams_for_extraction_def for_dentry_in_tree_def
  dentry_resolve_and_zero_lte_refcnt_def inode_resolve_ltes_def zero_lte_refcnt_def
  inode_stream_lte_resolved_def dentry_find_streams_to_extract_def unnamed_step_def
  ads_step_def include_ads_def maybe_add_stream_for_extraction_def add_dentry_to_lte_def
  inode_unnamed_lte_resolved_def inode_stream_name_nbytes_def inode_stream_hash_def flag_set_def

lemma ex_hardlink_stream_list:
  "fst (find_streams_for_extraction ex_build ex_hardlink_root 0 ex_state) = [10]"
  by (simp add: ex_defs planner_defs Let_def)

text \<open>
  C1 (as amended).  Let no inode under the extraction root carry \<^verbatim>\<open>i_visited\<close> when
  the planner starts (\<^verbatim>\<open>dentry_reset_needs_extraction\<close> leaves them so at the end
  of every extraction).  After \<^verbatim>\<open>find_streams_for_extraction\<close> the stream list
  holds every descriptor once, the sum of \<^verbatim>\<open>out_refcnt\<close> over the stream list is
  the number of (inode, stream) pairs needing extraction in the subtree, and for every
  descriptor of the list \<^verbatim>\<open>out_refcnt\<close> is the number of such pairs with that
  descriptor: one unit per inode that references the stream, however many hard-linked
  dentries share the inode.
\<close>

theorem planner_out_refcnt_sum:
  assumes "\<forall>d \<in> set (dentries_preorder root). \<not> i_visited (inodes s (d_inode d))"
  shows "distinct (fst (find_streams_for_extraction b root f s)) \<and>
         out_refcnt_sum (find_streams_for_extraction b root f s) =
           inode_stream_pairs b f root (snd (find_streams_for_extraction b root f s)) \<and>
         (\<forall>l \<in> set (fst (find_streams_for_extraction b root f s)).
            out_refcnt (ltes (snd (find_streams_for_extraction b root f s)) l) =
              inode_refs_to b f root (snd (find_streams_for_extraction b root f s)) l)"
  using assms by (rule planner_main)

theorem planner_out_refcnt_sum_witness:
  "distinct (fst (find_streams_for_extraction ex_build ex_hardlink_root 0 ex_state)) \<and>
   out_refcnt_sum (find_streams_for_extraction ex_build ex_hardlink_root 0 ex_state) =
     inode_stream_pairs ex_build 0 ex_hardlink_root
       (snd (find_streams_for_extraction ex_build ex_hardlink_root 0 ex_state)) \<and>
   out_refcnt (ltes (snd (find_streams_for_extraction ex_build ex_hardlink_root 0 ex_state)) 10) =
     inode_refs_to ex_build 0 ex_hardlink_root
       (snd (find_streams_for_extraction ex_build ex_hardlink_root 0 ex_state)) 10"
proof -
  have h: "\<forall>d \<in> set (dentries_preorder ex_hardlink_root).
             \<not> i_visited (inodes ex_state (d_inode d))"
    by (simp add: ex_defs)
  from planner_out_refcnt_sum [OF h, of ex_build 0] ex_hardlink_stream_list
  show ?thesis by simp
qed

text \<open>
  The claim as it is worded counts one unit per referencing dentry.  For the directory
  with two hard links to one file the planner leaves the sum of \<^verbatim>\<open>out_refcnt\<close> at
  1, while there are 2 (dentry, stream) pairs: the second link finds
  \<^verbatim>\<open>i_visited\<close> set and adds nothing.
\<close>

theorem planner_hard_links_counterexample:
  "out_refcnt_sum (find_streams_for_extraction ex_build ex_hardlink_root 0 ex_state) = 1 \<and>
   dentry_stream_pairs ex_build 0 ex_hardlink_root
      (snd (find_streams_for_extraction ex_build ex_hardlink_root 0 ex_state)) = 2"
  by (simp add: ex_defs planner_defs out_refcnt_sum_def dentry_stream_pairs_def
      inode_streams_to_extract_def Let_def)

end
